theory Spec2Isabelle
  imports Complex_Main "HOL-Library.AList"
begin

section \<open>JavaScript values used by the Room coordinator (api/room.ts)\<close>

subsection \<open>Numbers\<close>

text \<open>
  A JavaScript \<^verbatim>\<open>number\<close> is modelled by an exact rational or one of the three
  non-finite values. Arithmetic on finite values is exact: the rounding error of
  IEEE doubles and the sign of zero are not represented (zero is \<open>+0\<close>).
  Division by zero, the comparisons with \<open>NaN\<close> and the truthiness of a number
  follow the language.
\<close>

datatype number = Fin rat | NaN | PosInf | NegInf

definition num_of_nat :: "nat \<Rightarrow> number" where
  "num_of_nat n = Fin (of_nat n)"

definition num_of_int :: "int \<Rightarrow> number" where
  "num_of_int n = Fin (of_int n)"

text \<open>\<^verbatim>\<open>!!x\<close> for a number: \<open>0\<close> and \<open>NaN\<close> are falsy.\<close>

fun truthy :: "number \<Rightarrow> bool" where
  "truthy (Fin q) = (q \<noteq> 0)"
| "truthy NaN = False"
| "truthy PosInf = True"
| "truthy NegInf = True"

text \<open>\<^verbatim>\<open>x || d\<close> where \<open>x\<close> may be \<^verbatim>\<open>undefined\<close> (\<open>None\<close>).\<close>

definition or_default :: "number option \<Rightarrow> number \<Rightarrow> number" where
  "or_default x d = (case x of None \<Rightarrow> d | Some v \<Rightarrow> if truthy v then v else d)"

fun js_lt :: "number \<Rightarrow> number \<Rightarrow> bool" where
  "js_lt NaN _ = False"
| "js_lt _ NaN = False"
| "js_lt (Fin a) (Fin b) = (a < b)"
| "js_lt (Fin a) PosInf = True"
| "js_lt (Fin a) NegInf = False"
| "js_lt PosInf _ = False"
| "js_lt NegInf NegInf = False"
| "js_lt NegInf _ = True"

fun js_le :: "number \<Rightarrow> number \<Rightarrow> bool" where
  "js_le NaN _ = False"
| "js_le _ NaN = False"
| "js_le (Fin a) (Fin b) = (a \<le> b)"
| "js_le (Fin a) PosInf = True"
| "js_le (Fin a) NegInf = False"
| "js_le PosInf PosInf = True"
| "js_le PosInf _ = False"
| "js_le NegInf _ = True"

definition js_gt :: "number \<Rightarrow> number \<Rightarrow> bool" where
  "js_gt a b = js_lt b a"

definition js_ge :: "number \<Rightarrow> number \<Rightarrow> bool" where
  "js_ge a b = js_le b a"

fun js_neg :: "number \<Rightarrow> number" where
  "js_neg (Fin a) = Fin (- a)"
| "js_neg NaN = NaN"
| "js_neg PosInf = NegInf"
| "js_neg NegInf = PosInf"

fun js_add :: "number \<Rightarrow> number \<Rightarrow> number" where
  "js_add NaN _ = NaN"
| "js_add _ NaN = NaN"
| "js_add (Fin a) (Fin b) = Fin (a + b)"
| "js_add (Fin a) b = b"
| "js_add a (Fin b) = a"
| "js_add PosInf PosInf = PosInf"
| "js_add NegInf NegInf = NegInf"
| "js_add PosInf NegInf = NaN"
| "js_add NegInf PosInf = NaN"

definition js_sub :: "number \<Rightarrow> number \<Rightarrow> number" where
  "js_sub a b = js_add a (js_neg b)"

text \<open>An infinity of the sign of \<open>PosInf\<close> times a finite factor \<open>a\<close>.\<close>

definition inf_times :: "rat \<Rightarrow> number" where
  "inf_times a = (if a = 0 then NaN else if 0 < a then PosInf else NegInf)"

fun js_mul :: "number \<Rightarrow> number \<Rightarrow> number" where
  "js_mul NaN _ = NaN"
| "js_mul _ NaN = NaN"
| "js_mul (Fin a) (Fin b) = Fin (a * b)"
| "js_mul (Fin a) PosInf = inf_times a"
| "js_mul (Fin a) NegInf = js_neg (inf_times a)"
| "js_mul PosInf (Fin b) = inf_times b"
| "js_mul NegInf (Fin b) = js_neg (inf_times b)"
| "js_mul PosInf PosInf = PosInf"
| "js_mul NegInf NegInf = PosInf"
| "js_mul PosInf NegInf = NegInf"
| "js_mul NegInf PosInf = NegInf"

fun js_div :: "number \<Rightarrow> number \<Rightarrow> number" where
  "js_div NaN _ = NaN"
| "js_div _ NaN = NaN"
| "js_div (Fin a) (Fin b) = (if b = 0 then inf_times a else Fin (a / b))"
| "js_div (Fin a) _ = Fin 0"
| "js_div PosInf (Fin b) = (if 0 \<le> b then PosInf else NegInf)"
| "js_div NegInf (Fin b) = (if 0 \<le> b then NegInf else PosInf)"
| "js_div _ _ = NaN"

text \<open>\<^verbatim>\<open>Math.round\<close>: the nearest integer, a tie going up.\<close>

fun js_round :: "number \<Rightarrow> number" where
  "js_round (Fin a) = Fin (of_int \<lfloor>a + 1 / 2\<rfloor>)"
| "js_round x = x"

text \<open>\<^verbatim>\<open>Math.max(a, b)\<close>.\<close>

definition js_max :: "number \<Rightarrow> number \<Rightarrow> number" where
  "js_max a b = (if a = NaN \<or> b = NaN then NaN else if js_lt a b then b else a)"

subsection \<open>Strings\<close>

text \<open>
  Strings are lists of 8-bit characters. \<^verbatim>\<open>trim\<close> strips the ASCII white space
  and line terminators at both ends, \<^verbatim>\<open>toLowerCase\<close> maps \<open>A\<close>..\<open>Z\<close> to
  \<open>a\<close>..\<open>z\<close>; code points beyond ASCII are not represented.
\<close>

definition isSpace :: "char \<Rightarrow> bool" where
  "isSpace c = (of_char c \<in> {9, 10, 11, 12, 13, 32 :: nat})"

definition trim :: "string \<Rightarrow> string" where
  "trim s = rev (dropWhile isSpace (rev (dropWhile isSpace s)))"

definition lowerChar :: "char \<Rightarrow> char" where
  "lowerChar c =
     (case map_of (zip ''ABCDEFGHIJKLMNOPQRSTUVWXYZ'' ''abcdefghijklmnopqrstuvwxyz'') c of
        None \<Rightarrow> c
      | Some l \<Rightarrow> l)"

definition toLowerCase :: "string \<Rightarrow> string" where
  "toLowerCase s = map lowerChar s"

text \<open>
  \<^verbatim>\<open>xs[Math.floor(Math.random() * xs.length)]\<close> for a draw \<open>r\<close> of
  \<^verbatim>\<open>Math.random()\<close>. An index outside the array reads \<^verbatim>\<open>undefined\<close> (\<open>None\<close>);
  with \<open>0 \<le> r < 1\<close> this happens exactly for the empty array.
\<close>

definition pick :: "'a list \<Rightarrow> rat \<Rightarrow> 'a option" where
  "pick xs r =
     (let i = \<lfloor>r * of_nat (length xs)\<rfloor>
      in if 0 \<le> i \<and> nat i < length xs then Some (xs ! nat i) else None)"

section \<open>The data model\<close>

text \<open>
  \<^verbatim>\<open>interface RoomData\<close>. Objects used as dictionaries (\<open>connectedUsers\<close>,
  \<open>scores\<close>) are association lists in insertion order; an assignment to a key
  replaces the value in place or appends the key. \<open>targetWord\<close> and
  \<open>currentDrawer\<close> are declared \<^verbatim>\<open>string\<close>, but \<open>handleStartGame\<close> can store
  \<^verbatim>\<open>undefined\<close> there, so they are optional here. \<open>timerInterval\<close> holds \<open>0\<close>
  or the identifier of an interval. The constants \<open>GAME_WORDS\<close>,
  \<open>AI_PLAYER_ID\<close> and \<open>AI_NAMES\<close> of \<^verbatim>\<open>./constants\<close> are parameters.
\<close>

record constants =
  GAME_WORDS :: "string list"
  AI_PLAYER_ID :: string
  AI_NAMES :: "string list"

record guess_record =
  playerId :: string
  playerName :: string
  guess :: string
  timestamp :: int
  correct :: bool

record settings_record =
  gameDuration :: number
  minPlayers :: number
  maxPlayers :: number
  aiEnabled :: "bool option"
  aiGuessCooldown :: "number option"
  correctGuesserScore :: "number option"
  correctDrawerScore :: "number option"

text \<open>\<^verbatim>\<open>Partial<RoomData['settings']>\<close>: the keys a client sent.\<close>

record settings_patch =
  p_gameDuration :: "number option"
  p_minPlayers :: "number option"
  p_maxPlayers :: "number option"
  p_aiEnabled :: "bool option"
  p_aiGuessCooldown :: "number option"
  p_correctGuesserScore :: "number option"
  p_correctDrawerScore :: "number option"

datatype status_type = Success | Failure

record status_message =
  status_type :: status_type
  message :: string

record RoomData =
  key :: string
  users :: "string list"
  moderator :: string
  connectedUsers :: "(string \<times> bool) list"
  timerInterval :: nat
  lastAIGuessTime :: number
  isActive :: bool
  isLobby :: bool
  targetWord :: "string option"
  timeRemaining :: number
  guesses :: "guess_record list"
  hasWon :: bool
  currentDrawer :: "string option"
  drawingData :: string
  settings :: settings_record
  scores :: "(string \<times> number) list option"
  statusMessage :: "status_message option"
  endTime :: "number option"

section \<open>Messages, sessions and the state of a Room object\<close>

type_synonym socket = nat

record SessionInfo =
  webSocket :: socket
  roomKey :: string
  userName :: string

text \<open>
  The server-to-client messages, one constructor per \<^verbatim>\<open>type\<close> tag, with the
  payload the source serialises. \<open>GameStarted\<close> carries the room with
  \<open>targetWord\<close> blanked; \<open>NewGuess\<close> always has \<^verbatim>\<open>correct: false\<close>.
\<close>

datatype message =
    Initialize "RoomData option"
  | UserJoined string RoomData
  | UserConnectionStatus string bool RoomData
  | NewModerator string RoomData
  | SettingsUpdated settings_record RoomData
  | GameStarted RoomData
  | YouAreDrawing "string option"
  | TimeUpdate number
  | NewGuess string string int
  | CorrectGuess string "(string \<times> number) list option" "status_message option"
  | RoundEnd bool "string option" "(string \<times> number) list option" "status_message option"
  | DrawingUpdate string
  | ErrorMessage string

text \<open>
  What a handler does to the outside: a call of \<open>broadcast\<close> (with the sockets it
  sends to) or a private send on one socket.
\<close>

datatype effect = Broadcast message "socket list" | Send socket message

datatype body =
    ErrorBody string
  | RoomBody RoomData
  | SettingsBody settings_record
  | SuccessBody
  | GameStateBody RoomData
  | TextBody string
  | NoBody

datatype response = Response nat body

text \<open>
  A \<^verbatim>\<open>TypeError\<close> raised inside \<^verbatim>\<open>blockConcurrencyWhile\<close>. What the platform
  does with the object after such an exception is not modelled: a handler that
  raises has no successor state.
\<close>

datatype error = TypeError

text \<open>
  The object: the stored \<open>roomData\<close> (the storage key may be absent), the
  in-memory session map in insertion order, the intervals the runtime has
  running, the identifier the next \<^verbatim>\<open>setInterval\<close> returns, and whether the
  runtime has \<^verbatim>\<open>setInterval\<close>/\<^verbatim>\<open>clearInterval\<close> at all. Each handler runs
  to completion before the next one starts, and all readings of the clock inside
  one handler are the same instant \<open>now\<close>.
\<close>

record Room =
  storage :: "RoomData option"
  sessions :: "(socket \<times> SessionInfo) list"
  intervals :: "nat list"
  nextInterval :: nat
  timersAvailable :: bool

type_synonym outcome = "Room \<times> effect list"

definition broadcast :: "Room \<Rightarrow> message \<Rightarrow> effect list" where
  "broadcast room msg = [Broadcast msg (map fst (sessions room))]"

definition defaultSettings :: settings_record where
  "defaultSettings =
     \<lparr>gameDuration = Fin 60, minPlayers = Fin 2, maxPlayers = Fin 10,
      aiEnabled = Some False, aiGuessCooldown = Some (Fin 5000),
      correctGuesserScore = Some (Fin 10), correctDrawerScore = Some (Fin 5)\<rparr>"

definition newRoomData ::
  "string \<Rightarrow> string list \<Rightarrow> string \<Rightarrow> (string \<times> bool) list \<Rightarrow> number \<Rightarrow> RoomData" where
  "newRoomData k us m cu t =
     \<lparr>key = k, users = us, moderator = m, connectedUsers = cu, timerInterval = 0,
      lastAIGuessTime = Fin 0, isActive = False, isLobby = True, targetWord = Some [],
      timeRemaining = t, guesses = [], hasWon = False, currentDrawer = Some [],
      drawingData = [], settings = defaultSettings, scores = None,
      statusMessage = None, endTime = None\<rparr>"

text \<open>
  The constructor: an empty store gets the blank room; a stored room is kept
  (its \<open>connectedUsers\<close> is an object, so the migration branch is not taken).
\<close>

definition constructor :: "RoomData option \<Rightarrow> bool \<Rightarrow> Room" where
  "constructor stored timers =
     \<lparr>storage = (case stored of None \<Rightarrow> Some (newRoomData [] [] [] [] (Fin 0))
                 | Some roomData \<Rightarrow> Some roomData),
      sessions = [], intervals = [], nextInterval = 1, timersAvailable = timers\<rparr>"

section \<open>The handlers\<close>

subsection \<open>Round end and the timer\<close>

text \<open>The text \<^verbatim>\<open>${oldWord}\<close> of a template literal.\<close>

definition template_text :: "string option \<Rightarrow> string" where
  "template_text w = (case w of None \<Rightarrow> ''undefined'' | Some t \<Rightarrow> t)"

definition roundEndMessage :: "bool \<Rightarrow> string option \<Rightarrow> string" where
  "roundEndMessage success oldWord =
     (if success
      then ''Everyone guessed correctly! The word was '' @ [CHR 0x22] @ template_text oldWord @ [CHR 0x22]
      else ''Time'' @ [CHR 0x27] @ ''s up! The word was '' @ [CHR 0x22] @ template_text oldWord @ [CHR 0x22])"

definition handleRoundEnd :: "Room \<Rightarrow> RoomData \<Rightarrow> bool \<Rightarrow> outcome" where
  "handleRoundEnd room roomData success =
     (let oldWord = targetWord roomData;
          rd1 = roomData
            \<lparr>isActive := False, isLobby := True, targetWord := Some [],
             timeRemaining := gameDuration (settings roomData), hasWon := success,
             currentDrawer := Some [], endTime := None,
             statusMessage := Some
               \<lparr>status_type = (if success then Success else Failure),
                message = roundEndMessage success oldWord\<rparr>\<rparr>;
          clear = (timersAvailable room \<and> timerInterval rd1 \<noteq> 0);
          rd2 = (if clear then rd1\<lparr>timerInterval := 0\<rparr> else rd1);
          room1 = room
            \<lparr>storage := Some rd2,
             intervals := (if clear then removeAll (timerInterval rd1) (intervals room)
                           else intervals room)\<rparr>
      in (room1, broadcast room1 (RoundEnd success oldWord (scores rd2) (statusMessage rd2))))"

definition startGameTimer :: "Room \<Rightarrow> Room" where
  "startGameTimer room =
     (if \<not> timersAvailable room then room
      else case storage room of
        None \<Rightarrow> room
      | Some roomData \<Rightarrow>
          if isActive roomData \<and> js_gt (timeRemaining roomData) (Fin 0)
          then room
            \<lparr>storage := Some (roomData\<lparr>timerInterval := nextInterval room\<rparr>),
             intervals := intervals room @ [nextInterval room],
             nextInterval := Suc (nextInterval room)\<rparr>
          else room)"

definition updateGameTimer :: "Room \<Rightarrow> outcome" where
  "updateGameTimer room =
     (case storage room of
        None \<Rightarrow> (room, [])
      | Some roomData \<Rightarrow>
          if \<not> isActive roomData then (room, [])
          else
            let rd1 = roomData
                  \<lparr>timeRemaining := js_max (Fin 0) (js_sub (timeRemaining roomData) (Fin 1))\<rparr>
            in if js_le (timeRemaining rd1) (Fin 0) then handleRoundEnd room rd1 False
               else (room\<lparr>storage := Some rd1\<rparr>, broadcast room (TimeUpdate (timeRemaining rd1))))"

subsection \<open>Settings\<close>

text \<open>\<^verbatim>\<open>{...roomData.settings, ...settings}\<close>: a key of the patch wins.\<close>

definition merge_opt :: "'a option \<Rightarrow> 'a \<Rightarrow> 'a" where
  "merge_opt p old = (case p of None \<Rightarrow> old | Some v \<Rightarrow> v)"

definition merge_opt2 :: "'a option \<Rightarrow> 'a option \<Rightarrow> 'a option" where
  "merge_opt2 p old = (case p of None \<Rightarrow> old | Some v \<Rightarrow> Some v)"

definition mergeSettings :: "settings_record \<Rightarrow> settings_patch \<Rightarrow> settings_record" where
  "mergeSettings old p =
     \<lparr>gameDuration = merge_opt (p_gameDuration p) (gameDuration old),
      minPlayers = merge_opt (p_minPlayers p) (minPlayers old),
      maxPlayers = merge_opt (p_maxPlayers p) (maxPlayers old),
      aiEnabled = merge_opt2 (p_aiEnabled p) (aiEnabled old),
      aiGuessCooldown = merge_opt2 (p_aiGuessCooldown p) (aiGuessCooldown old),
      correctGuesserScore = merge_opt2 (p_correctGuesserScore p) (correctGuesserScore old),
      correctDrawerScore = merge_opt2 (p_correctDrawerScore p) (correctDrawerScore old)\<rparr>"

definition handleUpdateSettings :: "Room \<Rightarrow> string \<Rightarrow> settings_patch \<Rightarrow> outcome" where
  "handleUpdateSettings room name patch =
     (case storage room of
        None \<Rightarrow> (room, [])
      | Some roomData \<Rightarrow>
          if moderator roomData \<noteq> name then (room, [])
          else
            let rd1 = roomData\<lparr>settings := mergeSettings (settings roomData) patch\<rparr>
            in (room\<lparr>storage := Some rd1\<rparr>, broadcast room (SettingsUpdated (settings rd1) rd1)))"

subsection \<open>Starting a round\<close>

definition connectedNames :: "RoomData \<Rightarrow> string list" where
  "connectedNames roomData = map fst (filter snd (connectedUsers roomData))"

definition zeroScores :: "string list \<Rightarrow> (string \<times> number) list" where
  "zeroScores us = foldl (\<lambda>sc user. AList.update user (Fin 0) sc) [] us"

definition addAIPlayer :: "constants \<Rightarrow> RoomData \<Rightarrow> RoomData" where
  "addAIPlayer K roomData =
     (if aiEnabled (settings roomData) = Some True
      then
        let rd1 = (if AI_PLAYER_ID K \<in> set (users roomData) then roomData
                   else roomData
                     \<lparr>users := users roomData @ [AI_PLAYER_ID K],
                      connectedUsers := AList.update (AI_PLAYER_ID K) True (connectedUsers roomData)\<rparr>)
        in rd1\<lparr>scores := Some (AList.update (AI_PLAYER_ID K) (Fin 0)
                    (case scores rd1 of None \<Rightarrow> [] | Some sc \<Rightarrow> sc))\<rparr>
      else roomData)"

definition youAreDrawing :: "Room \<Rightarrow> RoomData \<Rightarrow> effect list" where
  "youAreDrawing room roomData =
     (case List.find (\<lambda>s. Some (userName (snd s)) = currentDrawer roomData) (sessions room) of
        None \<Rightarrow> []
      | Some s \<Rightarrow> [Send (fst s) (YouAreDrawing (targetWord roomData))])"

text \<open>
  \<open>r_word\<close> and \<open>r_drawer\<close> are the draws of \<^verbatim>\<open>Math.random()\<close> for the word and the
  drawer (the draw for the AI name is not used by the source).
\<close>

definition handleStartGame ::
  "constants \<Rightarrow> Room \<Rightarrow> string \<Rightarrow> int \<Rightarrow> rat \<Rightarrow> rat \<Rightarrow> outcome" where
  "handleStartGame K room name now r_word r_drawer =
     (case storage room of
        None \<Rightarrow> (room, [])
      | Some roomData \<Rightarrow>
          if moderator roomData \<noteq> name then (room, [])
          else if js_lt (num_of_nat (length (connectedNames roomData)))
                        (minPlayers (settings roomData)) then (room, [])
          else
            let randomWord = pick (GAME_WORDS K) r_word;
                randomDrawer = pick (connectedNames roomData) r_drawer;
                rd1 = roomData
                  \<lparr>isActive := True, isLobby := False, targetWord := randomWord,
                   timeRemaining := gameDuration (settings roomData), guesses := [],
                   hasWon := False, currentDrawer := randomDrawer,
                   endTime := Some (js_add (num_of_int now)
                                (js_mul (gameDuration (settings roomData)) (Fin 1000))),
                   drawingData := [], scores := Some (zeroScores (users roomData))\<rparr>;
                rd2 = addAIPlayer K rd1;
                room1 = startGameTimer (room\<lparr>storage := Some rd2\<rparr>)
            in (room1, broadcast room1 (GameStarted (rd2\<lparr>targetWord := None\<rparr>))
                       @ youAreDrawing room1 rd2))"

subsection \<open>Guesses and scoring\<close>

definition scoresOf :: "RoomData \<Rightarrow> (string \<times> number) list" where
  "scoresOf roomData = (case scores roomData of None \<Rightarrow> [] | Some sc \<Rightarrow> sc)"

definition nonDrawerPlayers :: "constants \<Rightarrow> RoomData \<Rightarrow> string list" where
  "nonDrawerPlayers K roomData =
     filter (\<lambda>user. Some user \<noteq> currentDrawer roomData \<and> user \<noteq> AI_PLAYER_ID K)
       (users roomData)"

definition timeBasedMultiplier :: "RoomData \<Rightarrow> number" where
  "timeBasedMultiplier roomData =
     js_div (timeRemaining roomData) (gameDuration (settings roomData))"

definition guesserAward :: "RoomData \<Rightarrow> number" where
  "guesserAward roomData =
     js_div (js_round (js_mul
        (js_mul (or_default (correctGuesserScore (settings roomData)) (Fin 10))
                (timeBasedMultiplier roomData))
        (Fin 10))) (Fin 10)"

definition drawerAward :: "constants \<Rightarrow> RoomData \<Rightarrow> number" where
  "drawerAward K roomData =
     js_div (js_round (js_mul
        (js_div
           (js_mul (or_default (correctDrawerScore (settings roomData)) (Fin 5))
                   (timeBasedMultiplier roomData))
           (num_of_nat (length (nonDrawerPlayers K roomData))))
        (Fin 10))) (Fin 10)"

text \<open>\<^verbatim>\<open>scores[k] = (scores[k] || 0) + award\<close>.\<close>

definition addScore :: "string \<Rightarrow> number \<Rightarrow> (string \<times> number) list \<Rightarrow> (string \<times> number) list" where
  "addScore k award sc = AList.update k (js_add (or_default (map_of sc k) (Fin 0)) award) sc"

definition awardScores :: "constants \<Rightarrow> RoomData \<Rightarrow> string \<Rightarrow> (string \<times> number) list" where
  "awardScores K roomData name =
     (let sc1 = addScore name (guesserAward roomData) (scoresOf roomData)
      in case currentDrawer roomData of
           None \<Rightarrow> sc1
         | Some drawer \<Rightarrow>
             if 0 < length (nonDrawerPlayers K roomData) \<and> drawer \<noteq> []
             then addScore drawer (drawerAward K roomData) sc1
             else sc1)"

definition allNonDrawersGuessedCorrectly :: "constants \<Rightarrow> RoomData \<Rightarrow> bool" where
  "allNonDrawersGuessedCorrectly K roomData =
     (let playerGuesses = map playerId (filter correct (guesses roomData))
      in list_all (\<lambda>player. player \<in> set playerGuesses) (nonDrawerPlayers K roomData))"

definition handleCorrectGuess :: "constants \<Rightarrow> Room \<Rightarrow> RoomData \<Rightarrow> string \<Rightarrow> outcome" where
  "handleCorrectGuess K room roomData name =
     (let rd1 = roomData\<lparr>scores := Some (awardScores K roomData name)\<rparr>
      in if allNonDrawersGuessedCorrectly K rd1 then handleRoundEnd room rd1 True
         else
           let rd2 = rd1\<lparr>statusMessage := Some
                 \<lparr>status_type = Success, message = name @ '' guessed correctly!''\<rparr>\<rparr>
           in (room\<lparr>storage := Some rd2\<rparr>,
               broadcast room (CorrectGuess name (scores rd2) (statusMessage rd2))))"

text \<open>
  \<open>guessText\<close> is \<open>None\<close> when the caller passes \<^verbatim>\<open>undefined\<close>; then, as for an
  \<^verbatim>\<open>undefined\<close> target word, the normalisation raises a \<^verbatim>\<open>TypeError\<close>.
\<close>

definition handleGuess ::
  "constants \<Rightarrow> Room \<Rightarrow> string \<Rightarrow> string option \<Rightarrow> int \<Rightarrow> error + outcome" where
  "handleGuess K room name guessText now =
     (case storage room of
        None \<Rightarrow> Inr (room, [])
      | Some roomData \<Rightarrow>
          if \<not> isActive roomData then Inr (room, [])
          else if Some name = currentDrawer roomData then Inr (room, [])
          else (case (guessText, targetWord roomData) of
              (Some text, Some target) \<Rightarrow>
                (let normalizedGuess = toLowerCase (trim text);
                     normalizedTarget = toLowerCase target;
                     rd1 = roomData\<lparr>guesses := guesses roomData @
                       [\<lparr>playerId = name, playerName = name, guess = text, timestamp = now,
                         correct = (normalizedGuess = normalizedTarget)\<rparr>]\<rparr>
                 in if normalizedGuess = normalizedTarget
                    then Inr (handleCorrectGuess K room rd1 name)
                    else Inr (room\<lparr>storage := Some rd1\<rparr>, broadcast room (NewGuess name text now)))
            | _ \<Rightarrow> Inl TypeError))"

subsection \<open>Drawing updates and the simulated guesser\<close>

text \<open>
  \<open>r_accuracy\<close> and \<open>r_wrong\<close> are the two draws of \<^verbatim>\<open>Math.random()\<close>. The
  assignments to \<open>lastAIGuessTime\<close> go to the caller's copy of the room, which is
  not stored again, so they do not reach the state.
\<close>

definition processAIGuess ::
  "constants \<Rightarrow> Room \<Rightarrow> RoomData \<Rightarrow> int \<Rightarrow> rat \<Rightarrow> rat \<Rightarrow> error + outcome" where
  "processAIGuess K room roomData now r_accuracy r_wrong =
     (if list_ex (\<lambda>g. playerId g = AI_PLAYER_ID K \<and> correct g) (guesses roomData)
      then Inr (room, [])
      else if 9 / 10 < r_accuracy
      then handleGuess K room (AI_PLAYER_ID K) (targetWord roomData) now
      else if 7 / 10 < r_accuracy
      then
        let wrongGuesses = filter
              (\<lambda>word. Some word \<noteq> targetWord roomData \<and>
                 \<not> list_ex (\<lambda>g. playerId g = AI_PLAYER_ID K \<and> guess g = word) (guesses roomData))
              (GAME_WORDS K)
        in if 0 < length wrongGuesses
           then handleGuess K room (AI_PLAYER_ID K) (pick wrongGuesses r_wrong) now
           else Inr (room, [])
      else Inr (room, []))"

definition aiShouldGuess :: "constants \<Rightarrow> RoomData \<Rightarrow> int \<Rightarrow> bool" where
  "aiShouldGuess K roomData now =
     (aiEnabled (settings roomData) = Some True \<and>
      map_of (connectedUsers roomData) (AI_PLAYER_ID K) = Some True \<and>
      (\<not> truthy (lastAIGuessTime roomData) \<or>
       js_ge (js_sub (num_of_int now) (lastAIGuessTime roomData))
             (or_default (aiGuessCooldown (settings roomData)) (Fin 5000))))"

definition handleDrawingUpdate ::
  "constants \<Rightarrow> Room \<Rightarrow> string \<Rightarrow> string \<Rightarrow> int \<Rightarrow> rat \<Rightarrow> rat \<Rightarrow> error + outcome" where
  "handleDrawingUpdate K room name drawing now r_accuracy r_wrong =
     (case storage room of
        None \<Rightarrow> Inr (room, [])
      | Some roomData \<Rightarrow>
          if \<not> isActive roomData then Inr (room, [])
          else if Some name \<noteq> currentDrawer roomData then Inr (room, [])
          else
            let rd1 = roomData\<lparr>drawingData := drawing\<rparr>;
                room1 = room\<lparr>storage := Some rd1\<rparr>
            in if aiShouldGuess K rd1 now
               then (case processAIGuess K room1 rd1 now r_accuracy r_wrong of
                       Inl e \<Rightarrow> Inl e
                     | Inr (room2, effs) \<Rightarrow> Inr (room2, effs @ broadcast room2 (DrawingUpdate drawing)))
               else Inr (room1, broadcast room1 (DrawingUpdate drawing)))"

subsection \<open>Connections\<close>

definition addUser :: "string \<Rightarrow> RoomData \<Rightarrow> RoomData" where
  "addUser name roomData =
     (let rd1 = (if name \<in> set (users roomData) then roomData
                 else roomData\<lparr>users := users roomData @ [name]\<rparr>)
      in rd1\<lparr>connectedUsers := AList.update name True (connectedUsers rd1)\<rparr>)"

definition handleSession :: "Room \<Rightarrow> socket \<Rightarrow> string \<Rightarrow> string \<Rightarrow> outcome" where
  "handleSession room ws rk name =
     (let room1 = room\<lparr>sessions := AList.update ws
                    \<lparr>webSocket = ws, roomKey = rk, userName = name\<rparr> (sessions room)\<rparr>
      in case storage room1 of
           None \<Rightarrow> (room1, [Send ws (Initialize None)])
         | Some roomData \<Rightarrow>
             let rd1 = addUser name roomData;
                 room2 = room1\<lparr>storage := Some rd1\<rparr>
             in (room2, broadcast room2 (UserConnectionStatus name True rd1)
                        @ [Send ws (Initialize (Some rd1))]))"

text \<open>The \<^verbatim>\<open>close\<close> listener of the socket \<open>ws\<close> that \<open>name\<close> opened.\<close>

definition closeListener :: "Room \<Rightarrow> socket \<Rightarrow> string \<Rightarrow> outcome" where
  "closeListener room ws name =
     (let room1 = room\<lparr>sessions := AList.delete ws (sessions room)\<rparr>;
          stillConnected = list_ex (\<lambda>s. userName (snd s) = name) (sessions room1)
      in if stillConnected then (room1, [])
         else case storage room1 of
           None \<Rightarrow> (room1, [])
         | Some roomData \<Rightarrow>
             let rd1 = roomData\<lparr>connectedUsers := AList.update name False (connectedUsers roomData)\<rparr>;
                 status = broadcast room1 (UserConnectionStatus name False rd1)
             in if name = moderator rd1
                then (case filter (\<lambda>user. map_of (connectedUsers rd1) user = Some True) (users rd1) of
                        [] \<Rightarrow> (room1\<lparr>storage := Some rd1\<rparr>, status)
                      | first # _ \<Rightarrow>
                          let rd2 = rd1\<lparr>moderator := first\<rparr>
                          in (room1\<lparr>storage := Some rd2\<rparr>,
                              status @ broadcast room1 (NewModerator first rd2)))
                else (room1\<lparr>storage := Some rd1\<rparr>, status))"

subsection \<open>The HTTP routes of \<open>fetch\<close>\<close>

type_synonym http_outcome = "Room \<times> effect list \<times> response"

text \<open>The guard \<^verbatim>\<open>!roomData || !roomData.key\<close> of every route but \<^verbatim>\<open>/initialize\<close>.\<close>

definition roomOf :: "Room \<Rightarrow> RoomData option" where
  "roomOf room =
     (case storage room of
        None \<Rightarrow> None
      | Some roomData \<Rightarrow> if key roomData = [] then None else Some roomData)"

definition notFound :: response where
  "notFound = Response 404 (ErrorBody ''Room not found'')"

definition postInitialize :: "Room \<Rightarrow> string \<Rightarrow> string \<Rightarrow> http_outcome" where
  "postInitialize room rk name =
     (if (case storage room of None \<Rightarrow> False | Some roomData \<Rightarrow> key roomData \<noteq> [])
      then (room, [], Response 400 (ErrorBody ''Room already exists''))
      else
        let roomData = newRoomData rk [name] name [(name, True)] (Fin 60)
        in (room\<lparr>storage := Some roomData\<rparr>, [], Response 200 (RoomBody roomData)))"

definition postJoin :: "Room \<Rightarrow> string \<Rightarrow> http_outcome" where
  "postJoin room name =
     (case roomOf room of
        None \<Rightarrow> (room, [], notFound)
      | Some roomData \<Rightarrow>
          let rd1 = addUser name roomData
          in (room\<lparr>storage := Some rd1\<rparr>, broadcast room (UserJoined name rd1),
              Response 200 (RoomBody rd1)))"

definition getSettings :: "Room \<Rightarrow> http_outcome" where
  "getSettings room =
     (case roomOf room of
        None \<Rightarrow> (room, [], notFound)
      | Some roomData \<Rightarrow> (room, [], Response 200 (SettingsBody (settings roomData))))"

definition putSettings :: "Room \<Rightarrow> string \<Rightarrow> settings_patch \<Rightarrow> http_outcome" where
  "putSettings room name patch =
     (case roomOf room of
        None \<Rightarrow> (room, [], notFound)
      | Some roomData \<Rightarrow>
          if moderator roomData \<noteq> name
          then (room, [], Response 403 (ErrorBody ''Only the moderator can update settings''))
          else
            let rd1 = roomData\<lparr>settings := mergeSettings (settings roomData) patch\<rparr>
            in (room\<lparr>storage := Some rd1\<rparr>, broadcast room (SettingsUpdated (settings rd1) rd1),
                Response 200 (SettingsBody (settings rd1))))"

definition postStartGame ::
  "constants \<Rightarrow> Room \<Rightarrow> string \<Rightarrow> int \<Rightarrow> rat \<Rightarrow> rat \<Rightarrow> http_outcome" where
  "postStartGame K room name now r_word r_drawer =
     (case roomOf room of
        None \<Rightarrow> (room, [], notFound)
      | Some roomData \<Rightarrow>
          if moderator roomData \<noteq> name
          then (room, [], Response 403 (ErrorBody ''Only the moderator can start the game''))
          else
            let out = handleStartGame K room name now r_word r_drawer
            in (fst out, snd out, Response 200 SuccessBody))"

definition postSubmitGuess ::
  "constants \<Rightarrow> Room \<Rightarrow> string \<Rightarrow> string option \<Rightarrow> int \<Rightarrow> error + http_outcome" where
  "postSubmitGuess K room name guessText now =
     (case roomOf room of
        None \<Rightarrow> Inr (room, [], notFound)
      | Some roomData \<Rightarrow>
          if \<not> isActive roomData
          then Inr (room, [], Response 400 (ErrorBody ''Game is not active''))
          else if Some name = currentDrawer roomData
          then Inr (room, [], Response 400 (ErrorBody ''The drawer cannot submit guesses''))
          else (case handleGuess K room name guessText now of
                  Inl e \<Rightarrow> Inl e
                | Inr out \<Rightarrow> Inr (fst out, snd out, Response 200 SuccessBody)))"

definition postUpdateDrawing ::
  "constants \<Rightarrow> Room \<Rightarrow> string \<Rightarrow> string \<Rightarrow> int \<Rightarrow> rat \<Rightarrow> rat \<Rightarrow> error + http_outcome" where
  "postUpdateDrawing K room name drawing now r_accuracy r_wrong =
     (case roomOf room of
        None \<Rightarrow> Inr (room, [], notFound)
      | Some roomData \<Rightarrow>
          if \<not> isActive roomData
          then Inr (room, [], Response 400 (ErrorBody ''Game is not active''))
          else if Some name \<noteq> currentDrawer roomData
          then Inr (room, [], Response 403
                      (ErrorBody ''Only the current drawer can update the drawing''))
          else (case handleDrawingUpdate K room name drawing now r_accuracy r_wrong of
                  Inl e \<Rightarrow> Inl e
                | Inr out \<Rightarrow> Inr (fst out, snd out, Response 200 SuccessBody)))"

text \<open>
  \<open>name\<close> is the query parameter, \<open>None\<close> when it is absent. A key whose value
  is \<^verbatim>\<open>undefined\<close> is left out by \<^verbatim>\<open>JSON.stringify\<close>: the snapshot contains
  \<open>targetWord\<close> exactly when the field of the body is not \<open>None\<close>.
\<close>

definition hideTargetWord :: "RoomData \<Rightarrow> string option \<Rightarrow> bool" where
  "hideTargetWord roomData name =
     (case name of None \<Rightarrow> True | Some n \<Rightarrow> n = [] \<or> Some n \<noteq> currentDrawer roomData)"

definition getGameState :: "Room \<Rightarrow> string option \<Rightarrow> http_outcome" where
  "getGameState room name =
     (case roomOf room of
        None \<Rightarrow> (room, [], notFound)
      | Some roomData \<Rightarrow>
          (room, [], Response 200 (GameStateBody
             (roomData\<lparr>targetWord :=
                (if hideTargetWord roomData name then None else targetWord roomData)\<rparr>))))"

definition upgrade :: "Room \<Rightarrow> socket \<Rightarrow> string option \<Rightarrow> string option \<Rightarrow> http_outcome" where
  "upgrade room ws rk name =
     (case (rk, name) of
        (Some k, Some n) \<Rightarrow>
          if k = [] \<or> n = []
          then (room, [], Response 400 (TextBody ''Missing room key or user name''))
          else (let out = handleSession room ws k n in (fst out, snd out, Response 101 NoBody))
      | _ \<Rightarrow> (room, [], Response 400 (TextBody ''Missing room key or user name'')))"

subsection \<open>Events\<close>

datatype request =
    Upgrade socket "string option" "string option"
  | PostInitialize string string
  | PostJoin string
  | GetSettings
  | PutSettings string settings_patch
  | PostStartGame string
  | PostSubmitGuess string "string option"
  | PostUpdateDrawing string string
  | GetGameState "string option"
  | OtherRequest

datatype client_message =
    UpdateSettings settings_patch
  | StartGame
  | SubmitGuess "string option"
  | UpdateDrawing string
  | OtherMessage
  | Unparseable string

datatype event =
    Fetch request
  | Message socket client_message
  | Close socket
  | Tick nat

text \<open>
  \<open>fetch\<close>: the socket of an upgrade is the new server socket; \<open>now\<close> is the
  clock and \<open>r1\<close>, \<open>r2\<close> the draws of \<^verbatim>\<open>Math.random()\<close> the handler makes.
\<close>

definition fetch ::
  "constants \<Rightarrow> Room \<Rightarrow> request \<Rightarrow> int \<Rightarrow> rat \<Rightarrow> rat \<Rightarrow> error + http_outcome" where
  "fetch K room rq now r1 r2 =
     (case rq of
        Upgrade ws rk name \<Rightarrow> Inr (upgrade room ws rk name)
      | PostInitialize rk name \<Rightarrow> Inr (postInitialize room rk name)
      | PostJoin name \<Rightarrow> Inr (postJoin room name)
      | GetSettings \<Rightarrow> Inr (getSettings room)
      | PutSettings name patch \<Rightarrow> Inr (putSettings room name patch)
      | PostStartGame name \<Rightarrow> Inr (postStartGame K room name now r1 r2)
      | PostSubmitGuess name guessText \<Rightarrow> postSubmitGuess K room name guessText now
      | PostUpdateDrawing name drawing \<Rightarrow> postUpdateDrawing K room name drawing now r1 r2
      | GetGameState name \<Rightarrow> Inr (getGameState room name)
      | OtherRequest \<Rightarrow> Inr (room, [], Response 404 (TextBody ''Not found'')))"

text \<open>The \<^verbatim>\<open>message\<close> listener of the socket \<open>ws\<close> that \<open>name\<close> opened.\<close>

definition messageListener ::
  "constants \<Rightarrow> Room \<Rightarrow> socket \<Rightarrow> string \<Rightarrow> client_message \<Rightarrow> int \<Rightarrow> rat \<Rightarrow> rat
     \<Rightarrow> error + outcome" where
  "messageListener K room ws name msg now r1 r2 =
     (case msg of
        UpdateSettings patch \<Rightarrow> Inr (handleUpdateSettings room name patch)
      | StartGame \<Rightarrow> Inr (handleStartGame K room name now r1 r2)
      | SubmitGuess guessText \<Rightarrow> handleGuess K room name guessText now
      | UpdateDrawing drawing \<Rightarrow> handleDrawingUpdate K room name drawing now r1 r2
      | OtherMessage \<Rightarrow> Inr (room, [])
      | Unparseable err \<Rightarrow> Inr (room, [Send ws (ErrorMessage err)]))"

text \<open>
  One event of the object. Messages and closes come from registered sockets
  and ticks from running intervals; for anything else nothing happens.
\<close>

definition step ::
  "constants \<Rightarrow> Room \<Rightarrow> event \<Rightarrow> int \<Rightarrow> rat \<Rightarrow> rat \<Rightarrow> error + outcome" where
  "step K room ev now r1 r2 =
     (case ev of
        Fetch rq \<Rightarrow>
          (case fetch K room rq now r1 r2 of
             Inl e \<Rightarrow> Inl e
           | Inr out \<Rightarrow> Inr (fst out, fst (snd out)))
      | Message ws msg \<Rightarrow>
          (case map_of (sessions room) ws of
             None \<Rightarrow> Inr (room, [])
           | Some s \<Rightarrow> messageListener K room ws (userName s) msg now r1 r2)
      | Close ws \<Rightarrow>
          (case map_of (sessions room) ws of
             None \<Rightarrow> Inr (room, [])
           | Some s \<Rightarrow> Inr (closeListener room ws (userName s)))
      | Tick i \<Rightarrow>
          (if i \<in> set (intervals room) then Inr (updateGameTimer room) else Inr (room, [])))"

text \<open>An upgrade brings a socket that is not registered; the draws are in \<open>[0, 1)\<close>.\<close>

definition enabled :: "Room \<Rightarrow> event \<Rightarrow> rat \<Rightarrow> rat \<Rightarrow> bool" where
  "enabled room ev r1 r2 =
     (0 \<le> r1 \<and> r1 < 1 \<and> 0 \<le> r2 \<and> r2 < 1 \<and>
      (case ev of
         Fetch (Upgrade ws rk name) \<Rightarrow> map_of (sessions room) ws = None
       | Fetch rq \<Rightarrow> True
       | Message ws msg \<Rightarrow> map_of (sessions room) ws \<noteq> None
       | Close ws \<Rightarrow> map_of (sessions room) ws \<noteq> None
       | Tick i \<Rightarrow> i \<in> set (intervals room)))"

text \<open>The states of an object created on an empty store.\<close>

inductive reachable :: "constants \<Rightarrow> Room \<Rightarrow> bool" for K :: constants where
  reachable_init: "reachable K (constructor None timers)"
| reachable_step:
    "reachable K room \<Longrightarrow> enabled room ev r1 r2 \<Longrightarrow>
     step K room ev now r1 r2 = Inr (room', effs) \<Longrightarrow> reachable K room'"

section \<open>Runs\<close>

text \<open>
  A run of enabled events, each with its clock reading and random draws; the
  result is the final room and everything sent on the way.
\<close>

fun run ::
  "constants \<Rightarrow> Room \<Rightarrow> (event \<times> int \<times> rat \<times> rat) list \<Rightarrow> (Room \<times> effect list) option" where
  "run K room [] = Some (room, [])"
| "run K room ((ev, now, r1, r2) # rest) =
     (if enabled room ev r1 r2
      then (case step K room ev now r1 r2 of
              Inl e \<Rightarrow> None
            | Inr out \<Rightarrow>
                (case run K (fst out) rest of
                   None \<Rightarrow> None
                 | Some res \<Rightarrow> Some (fst res, snd out @ snd res)))
      else None)"

definition finalRoom :: "(Room \<times> effect list) option \<Rightarrow> Room option" where
  "finalRoom res = map_option fst res"

section \<open>Example rooms\<close>

definition K0 :: constants where
  "K0 = \<lparr>GAME_WORDS = [''cat'', ''dog''], AI_PLAYER_ID = ''ai-player'',
          AI_NAMES = [''Robo'']\<rparr>"

definition ex_room ::
  "RoomData \<Rightarrow> (socket \<times> SessionInfo) list \<Rightarrow> nat list \<Rightarrow> nat \<Rightarrow> Room" where
  "ex_room roomData ss ivs nxt =
     \<lparr>storage = Some roomData, sessions = ss, intervals = ivs, nextInterval = nxt,
      timersAvailable = True\<rparr>"

text \<open>Three users in the lobby, \<open>ann\<close> the moderator.\<close>

definition ex_lobby_data :: RoomData where
  "ex_lobby_data =
     newRoomData ''r'' [''ann'', ''bob'', ''cy''] ''ann''
       [(''ann'', True), (''bob'', True), (''cy'', True)] (Fin 60)"

definition tr_lobby :: "(event \<times> int \<times> rat \<times> rat) list" where
  "tr_lobby =
     [(Fetch (PostInitialize ''r'' ''ann''), 0, 0, 0),
      (Fetch (PostJoin ''bob''), 0, 0, 0),
      (Fetch (PostJoin ''cy''), 0, 0, 0)]"

text \<open>The same three users, each on one socket.\<close>

definition ex_sessions :: "(socket \<times> SessionInfo) list" where
  "ex_sessions =
     [(1, \<lparr>webSocket = 1, roomKey = ''r'', userName = ''ann''\<rparr>),
      (2, \<lparr>webSocket = 2, roomKey = ''r'', userName = ''bob''\<rparr>),
      (3, \<lparr>webSocket = 3, roomKey = ''r'', userName = ''cy''\<rparr>)]"

definition tr_sockets :: "(event \<times> int \<times> rat \<times> rat) list" where
  "tr_sockets =
     [(Fetch (PostInitialize ''r'' ''ann''), 0, 0, 0),
      (Fetch (Upgrade 1 (Some ''r'') (Some ''ann'')), 0, 0, 0),
      (Fetch (Upgrade 2 (Some ''r'') (Some ''bob'')), 0, 0, 0),
      (Fetch (Upgrade 3 (Some ''r'') (Some ''cy'')), 0, 0, 0)]"

text \<open>A round started by \<open>ann\<close>: she draws \<open>cat\<close>.\<close>

definition ex_active_data :: RoomData where
  "ex_active_data = ex_lobby_data
     \<lparr>timerInterval := 1, isActive := True, isLobby := False, targetWord := Some ''cat'',
      currentDrawer := Some ''ann'',
      scores := Some [(''ann'', Fin 0), (''bob'', Fin 0), (''cy'', Fin 0)],
      endTime := Some (Fin 61000)\<rparr>"

definition tr_active :: "(event \<times> int \<times> rat \<times> rat) list" where
  "tr_active = tr_lobby @ [(Fetch (PostStartGame ''ann''), 1000, 0, 0)]"

text \<open>\<open>bob\<close> has left; then also \<open>cy\<close>.\<close>

definition ex_bob_left :: Room where
  "ex_bob_left =
     ex_room (ex_lobby_data\<lparr>connectedUsers := [(''ann'', True), (''bob'', False), (''cy'', True)]\<rparr>)
       [(1, \<lparr>webSocket = 1, roomKey = ''r'', userName = ''ann''\<rparr>),
        (3, \<lparr>webSocket = 3, roomKey = ''r'', userName = ''cy''\<rparr>)] [] 1"

definition ex_only_ann :: Room where
  "ex_only_ann =
     ex_room (ex_lobby_data\<lparr>connectedUsers := [(''ann'', True), (''bob'', False), (''cy'', False)]\<rparr>)
       [(1, \<lparr>webSocket = 1, roomKey = ''r'', userName = ''ann''\<rparr>)] [] 1"

text \<open>\<open>bob\<close> has guessed the word; \<open>cy\<close> has not yet.\<close>

definition bob_guess :: guess_record where
  "bob_guess =
     \<lparr>playerId = ''bob'', playerName = ''bob'', guess = ''cat'', timestamp = 2000,
      correct = True\<rparr>"

definition ex_guessed_data :: RoomData where
  "ex_guessed_data = ex_active_data
     \<lparr>guesses := [bob_guess],
      scores := Some [(''ann'', Fin (5 / 2)), (''bob'', Fin 10), (''cy'', Fin 0)],
      statusMessage := Some \<lparr>status_type = Success, message = ''bob guessed correctly!''\<rparr>\<rparr>"

definition tr_guessed :: "(event \<times> int \<times> rat \<times> rat) list" where
  "tr_guessed = tr_active @ [(Fetch (PostSubmitGuess ''bob'' (Some ''cat'')), 2000, 0, 0)]"




text \<open>Half of the round is over.\<close>

definition ex_halftime_data :: RoomData where
  "ex_halftime_data = ex_active_data\<lparr>timeRemaining := Fin 30\<rparr>"

definition tr_halftime :: "(event \<times> int \<times> rat \<times> rat) list" where
  "tr_halftime = tr_active @ replicate 30 (Tick 1, 2000, 0, 0)"

text \<open>The AI player has joined the round of \<open>ann\<close> and \<open>bob\<close>.\<close>

definition ai_patch :: settings_patch where
  "ai_patch =
     \<lparr>p_gameDuration = None, p_minPlayers = None, p_maxPlayers = None,
      p_aiEnabled = Some True, p_aiGuessCooldown = None, p_correctGuesserScore = None,
      p_correctDrawerScore = None\<rparr>"

definition ex_ai_data :: RoomData where
  "ex_ai_data =
     (newRoomData ''r'' [''ann'', ''bob'', ''ai-player''] ''ann''
        [(''ann'', True), (''bob'', True), (''ai-player'', True)] (Fin 60))
     \<lparr>timerInterval := 1, isActive := True, isLobby := False, targetWord := Some ''cat'',
      currentDrawer := Some ''ann'',
      settings := defaultSettings\<lparr>aiEnabled := Some True\<rparr>,
      scores := Some [(''ann'', Fin 0), (''bob'', Fin 0), (''ai-player'', Fin 0)],
      endTime := Some (Fin 61000)\<rparr>"

definition tr_ai :: "(event \<times> int \<times> rat \<times> rat) list" where
  "tr_ai =
     [(Fetch (PostInitialize ''r'' ''ann''), 0, 0, 0),
      (Fetch (PostJoin ''bob''), 0, 0, 0),
      (Fetch (PutSettings ''ann'' ai_patch), 500, 0, 0),
      (Fetch (PostStartGame ''ann''), 1000, 0, 0)]"

text \<open>The AI player has guessed the word in that round.\<close>

definition ex_ai_guessed_data :: RoomData where
  "ex_ai_guessed_data = ex_ai_data
     \<lparr>guesses := [\<lparr>playerId = ''ai-player'', playerName = ''ai-player'', guess = ''cat'',
                    timestamp = 2000, correct = True\<rparr>],
      drawingData := ''d'',
      scores := Some [(''ann'', Fin 5), (''bob'', Fin 0), (''ai-player'', Fin 10)],
      statusMessage := Some
        \<lparr>status_type = Success, message = ''ai-player guessed correctly!''\<rparr>\<rparr>"

definition tr_ai_guessed :: "(event \<times> int \<times> rat \<times> rat) list" where
  "tr_ai_guessed = tr_ai @ [(Fetch (PostUpdateDrawing ''ann'' ''d''), 2000, 19 / 20, 0)]"

section \<open>Predicates of the properties\<close>

text \<open>Exactly one of the two stored phase flags is set.\<close>

definition phaseOK :: "Room \<Rightarrow> bool" where
  "phaseOK room =
     (case storage room of
        None \<Rightarrow> False
      | Some roomData \<Rightarrow> isActive roomData \<noteq> isLobby roomData)"





text \<open>The score recorded for a user in the room a handler leaves behind.\<close>

definition resultScore :: "error + outcome \<Rightarrow> string \<Rightarrow> number option" where
  "resultScore res name =
     (case res of
        Inl e \<Rightarrow> None
      | Inr out \<Rightarrow>
          (case storage (fst out) of
             None \<Rightarrow> None
           | Some roomData \<Rightarrow> map_of (scoresOf roomData) name))"

text \<open>A user has a correct guess recorded.\<close>

definition hasCorrectGuess :: "RoomData \<Rightarrow> string \<Rightarrow> bool" where
  "hasCorrectGuess roomData user =
     list_ex (\<lambda>g. playerId g = user \<and> correct g) (guesses roomData)"

text \<open>
  The completion condition in the words of the specification: every user other
  than the current drawer has a correct guess recorded.
\<close>

definition spec_everyOtherUserGuessed :: "RoomData \<Rightarrow> bool" where
  "spec_everyOtherUserGuessed roomData =
     list_all (\<lambda>user. Some user = currentDrawer roomData \<or> hasCorrectGuess roomData user)
       (users roomData)"

text \<open>The same condition with the AI player left out as well.\<close>

definition everyOtherPlayerGuessed :: "constants \<Rightarrow> RoomData \<Rightarrow> bool" where
  "everyOtherPlayerGuessed K roomData =
     list_all (\<lambda>user. Some user = currentDrawer roomData \<or> user = AI_PLAYER_ID K \<or>
                       hasCorrectGuess roomData user)
       (users roomData)"

text \<open>The room with a correct guess of \<open>name\<close> recorded.\<close>

definition withCorrectGuess :: "RoomData \<Rightarrow> string \<Rightarrow> string \<Rightarrow> int \<Rightarrow> RoomData" where
  "withCorrectGuess roomData name text now =
     roomData\<lparr>guesses := guesses roomData @
       [\<lparr>playerId = name, playerName = name, guess = text, timestamp = now,
         correct = True\<rparr>]\<rparr>"

definition isRoundEnd :: "bool \<Rightarrow> effect \<Rightarrow> bool" where
  "isRoundEnd success e =
     (case e of Broadcast (RoundEnd s w sc st) ws \<Rightarrow> s = success | _ \<Rightarrow> False)"

definition isCorrectGuess :: "string \<Rightarrow> effect \<Rightarrow> bool" where
  "isCorrectGuess name e =
     (case e of Broadcast (CorrectGuess n sc st) ws \<Rightarrow> n = name | _ \<Rightarrow> False)"

text \<open>
  Reading a log of effects round by round: \<open>gameStarted\<close> opens a round,
  \<open>roundEnd\<close> closes the open round and is an error (\<open>None\<close>) when no round is
  open. The result is whether a round is open at the end.
\<close>

fun roundLog :: "bool \<Rightarrow> effect list \<Rightarrow> bool option" where
  "roundLog running [] = Some running"
| "roundLog running (Broadcast (GameStarted payload) ws # es) = roundLog True es"
| "roundLog running (Broadcast (RoundEnd s w sc st) ws # es) =
     (if running then roundLog False es else None)"
| "roundLog running (e # es) = roundLog running es"

definition activeFlag :: "Room \<Rightarrow> bool" where
  "activeFlag room =
     (case storage room of None \<Rightarrow> False | Some roomData \<Rightarrow> isActive roomData)"

definition logOK :: "Room \<Rightarrow> outcome \<Rightarrow> bool" where
  "logOK room out = (roundLog (activeFlag room) (snd out) = Some (activeFlag (fst out)))"

text \<open>The stored room has a target word (the field is not \<^verbatim>\<open>undefined\<close>).\<close>

definition wordOK :: "Room \<Rightarrow> bool" where
  "wordOK room =
     (case storage room of None \<Rightarrow> False | Some roomData \<Rightarrow> targetWord roomData \<noteq> None)"

section \<open>Properties\<close>

subsection \<open>Runs stay inside the reachable states\<close>

lemma run_reachable:
  "reachable K room \<Longrightarrow> run K room evs = Some (room', sent) \<Longrightarrow> reachable K room'"
proof (induction evs arbitrary: room sent)
  case Nil
  then show ?case by simp
next
  case (Cons e evs)
  obtain ev now r1 r2 where e: "e = (ev, now, r1, r2)"
    by (cases e) auto
  from Cons.prems(2) e have en: "enabled room ev r1 r2"
    by (auto split: if_splits)
  from Cons.prems(2) e en obtain out res where
    st: "step K room ev now r1 r2 = Inr out" and rest: "run K (fst out) evs = Some res"
    and fin: "fst res = room'"
    by (auto split: sum.splits option.splits)
  from st have "step K room ev now r1 r2 = Inr (fst out, snd out)" by simp
  with Cons.prems(1) en have "reachable K (fst out)"
    by (rule reachable_step)
  moreover from rest fin have "run K (fst out) evs = Some (room', snd res)" by auto
  ultimately show ?case by (rule Cons.IH)
qed

lemma finalRoom_reachable:
  "finalRoom (run K (constructor None timers) evs) = Some room \<Longrightarrow> reachable K room"
  by (auto simp add: finalRoom_def intro: run_reachable[OF reachable_init])

subsection \<open>The timer tick\<close>

text \<open>
  C3. In every room whose stored phase is not Active (\<open>isActive\<close> is false, the
  Lobby phase), a timer tick is a no-op: \<open>updateGameTimer\<close> returns the room
  as it was, every field unchanged and so still not Active, and makes no
  broadcast at all, in particular neither \<open>roundEnd\<close> nor \<open>timeUpdate\<close>. The
  same holds for the tick as an event of the object.
\<close>

theorem tick_in_lobby_is_noop:
  assumes "storage room = Some roomData" and "\<not> isActive roomData"
  shows "updateGameTimer room = (room, []) \<and> step K room (Tick i) now r1 r2 = Inr (room, [])"
  using assms by (simp add: updateGameTimer_def step_def)

theorem tick_in_lobby_is_noop_witness:
  "updateGameTimer (constructor None True) = (constructor None True, []) \<and>
   step K0 (constructor None True) (Tick 1) 0 0 0 = Inr (constructor None True, [])"
  using tick_in_lobby_is_noop
    [of "constructor None True" "newRoomData [] [] [] [] (Fin 0)" K0 1 0 0 0]
  by (simp add: constructor_def newRoomData_def)

subsection \<open>The example rooms are reachable\<close>

lemma ex_lobby_reachable:
  "finalRoom (run K0 (constructor None True) tr_lobby) = Some (ex_room ex_lobby_data [] [] 1)"
  by (simp add: finalRoom_def tr_lobby_def enabled_def step_def fetch_def postInitialize_def
      postJoin_def roomOf_def addUser_def constructor_def newRoomData_def ex_room_def
      ex_lobby_data_def broadcast_def Let_def)

lemma ex_sockets_reachable:
  "finalRoom (run K0 (constructor None True) tr_sockets)
     = Some (ex_room ex_lobby_data ex_sessions [] 1)"
  by (simp add: finalRoom_def tr_sockets_def enabled_def step_def fetch_def postInitialize_def
      upgrade_def handleSession_def addUser_def constructor_def newRoomData_def ex_room_def
      ex_lobby_data_def ex_sessions_def broadcast_def Let_def)

lemma ex_active_reachable:
  "finalRoom (run K0 (constructor None True) tr_active) = Some (ex_room ex_active_data [] [1] 2)"
  by (simp add: finalRoom_def tr_active_def tr_lobby_def enabled_def step_def fetch_def
      postInitialize_def postJoin_def postStartGame_def handleStartGame_def startGameTimer_def
      addAIPlayer_def youAreDrawing_def connectedNames_def zeroScores_def pick_def K0_def
      roomOf_def addUser_def constructor_def newRoomData_def defaultSettings_def ex_room_def
      ex_lobby_data_def ex_active_data_def broadcast_def num_of_nat_def num_of_int_def
      js_gt_def Let_def)

subsection \<open>The state snapshot\<close>

text \<open>
  C6, as the claim states it, fails in a reachable lobby: there \<open>currentDrawer\<close>
  is the empty string, and a requester whose name is the empty string equals it, yet
  the snapshot has no \<open>targetWord\<close>.
\<close>

theorem getState_empty_name_counterexample:
  "reachable K0 (ex_room ex_lobby_data [] [] 1) \<and>
   Some [] = currentDrawer ex_lobby_data \<and>
   getGameState (ex_room ex_lobby_data [] [] 1) (Some [])
     = (ex_room ex_lobby_data [] [] 1, [],
        Response 200 (GameStateBody (ex_lobby_data\<lparr>targetWord := None\<rparr>)))"
proof -
  have "Some [] = currentDrawer ex_lobby_data \<and>
   getGameState (ex_room ex_lobby_data [] [] 1) (Some [])
     = (ex_room ex_lobby_data [] [] 1, [],
        Response 200 (GameStateBody (ex_lobby_data\<lparr>targetWord := None\<rparr>)))"
    by code_simp
  with finalRoom_reachable [OF ex_lobby_reachable] show ?thesis
    by (rule conjI)
qed

text \<open>
  C6, amended. For an initialised room, the snapshot returned for a requester
  carries the stored \<open>targetWord\<close> if the requester gave a non-empty name that
  equals \<open>currentDrawer\<close>; for every other requester (another name, the empty
  name, no name) \<open>targetWord\<close> is absent, in any phase. The room is not changed
  and nothing is sent.
\<close>

theorem getState_targetWord_only_for_drawer:
  assumes "roomOf room = Some roomData"
  shows "\<exists>snapshot.
           getGameState room name = (room, [], Response 200 (GameStateBody snapshot)) \<and>
           targetWord snapshot =
             (case name of
                None \<Rightarrow> None
              | Some n \<Rightarrow> if n \<noteq> [] \<and> currentDrawer roomData = Some n
                          then targetWord roomData else None)"
  using assms by (auto simp add: getGameState_def hideTargetWord_def split: option.splits)

theorem getState_targetWord_only_for_drawer_witness:
  "(\<exists>snapshot.
      getGameState (ex_room ex_active_data [] [1] 2) (Some ''ann'')
        = (ex_room ex_active_data [] [1] 2, [], Response 200 (GameStateBody snapshot)) \<and>
      targetWord snapshot = Some ''cat'')
   \<and> (\<exists>snapshot.
      getGameState (ex_room ex_active_data [] [1] 2) (Some ''bob'')
        = (ex_room ex_active_data [] [1] 2, [], Response 200 (GameStateBody snapshot)) \<and>
      targetWord snapshot = None)"
  using getState_targetWord_only_for_drawer
    [of "ex_room ex_active_data [] [1] 2" ex_active_data "Some ''ann''"]
    getState_targetWord_only_for_drawer
    [of "ex_room ex_active_data [] [1] 2" ex_active_data "Some ''bob''"]
  by (simp add: roomOf_def ex_room_def ex_active_data_def ex_lobby_data_def newRoomData_def)

subsection \<open>Settings updates\<close>

text \<open>
  C7, as the claim states it, fails on the socket, in a reachable room: \<open>bob\<close>,
  who is not the moderator, sends \<open>updateSettings\<close> and gets no answer at all, neither
  Forbidden nor anything else.
\<close>

theorem updateSettings_silent_counterexample:
  "reachable K0 (ex_room ex_lobby_data ex_sessions [] 1) \<and>
   moderator ex_lobby_data \<noteq> ''bob'' \<and>
   step K0 (ex_room ex_lobby_data ex_sessions [] 1)
     (Message 2 (UpdateSettings
        \<lparr>p_gameDuration = Some (Fin 30), p_minPlayers = None, p_maxPlayers = None,
         p_aiEnabled = None, p_aiGuessCooldown = None, p_correctGuesserScore = None,
         p_correctDrawerScore = None\<rparr>)) 0 0 0
     = Inr (ex_room ex_lobby_data ex_sessions [] 1, [])"
proof -
  have "moderator ex_lobby_data \<noteq> ''bob'' \<and>
   step K0 (ex_room ex_lobby_data ex_sessions [] 1)
     (Message 2 (UpdateSettings
        \<lparr>p_gameDuration = Some (Fin 30), p_minPlayers = None, p_maxPlayers = None,
         p_aiEnabled = None, p_aiGuessCooldown = None, p_correctGuesserScore = None,
         p_correctDrawerScore = None\<rparr>)) 0 0 0
     = Inr (ex_room ex_lobby_data ex_sessions [] 1, [])"
    by code_simp
  with finalRoom_reachable [OF ex_sockets_reachable] show ?thesis
    by (rule conjI)
qed

text \<open>
  C7, amended. A settings update by anyone but the moderator leaves the whole
  room unchanged and is never broadcast; over HTTP (\<open>PUT /settings\<close>, for an
  initialised room) it is answered to the requester with status 403, over the
  socket it is dropped without any reply. A settings update by the moderator
  merges the patch into \<open>settings\<close>, changes nothing else, and broadcasts
  \<open>settingsUpdated\<close> once on both paths.
\<close>

theorem settings_update_only_by_moderator:
  assumes "storage room = Some roomData"
  shows "(moderator roomData \<noteq> name \<longrightarrow>
            handleUpdateSettings room name patch = (room, []) \<and>
            (key roomData \<noteq> [] \<longrightarrow>
               putSettings room name patch =
                 (room, [], Response 403 (ErrorBody ''Only the moderator can update settings''))))
       \<and> (moderator roomData = name \<longrightarrow>
            (let rd1 = roomData\<lparr>settings := mergeSettings (settings roomData) patch\<rparr>;
                 sent = [Broadcast (SettingsUpdated (settings rd1) rd1) (map fst (sessions room))]
             in handleUpdateSettings room name patch = (room\<lparr>storage := Some rd1\<rparr>, sent) \<and>
                (key roomData \<noteq> [] \<longrightarrow>
                   putSettings room name patch =
                     (room\<lparr>storage := Some rd1\<rparr>, sent,
                      Response 200 (SettingsBody (settings rd1))))))"
  using assms
  by (simp add: handleUpdateSettings_def putSettings_def roomOf_def broadcast_def Let_def)

theorem settings_update_only_by_moderator_witness:
  "putSettings (ex_room ex_lobby_data ex_sessions [] 1) ''bob''
      \<lparr>p_gameDuration = Some (Fin 30), p_minPlayers = None, p_maxPlayers = None,
       p_aiEnabled = None, p_aiGuessCooldown = None, p_correctGuesserScore = None,
       p_correctDrawerScore = None\<rparr>
     = (ex_room ex_lobby_data ex_sessions [] 1, [],
        Response 403 (ErrorBody ''Only the moderator can update settings''))
   \<and> fst (handleUpdateSettings (ex_room ex_lobby_data ex_sessions [] 1) ''ann''
      \<lparr>p_gameDuration = Some (Fin 30), p_minPlayers = None, p_maxPlayers = None,
       p_aiEnabled = None, p_aiGuessCooldown = None, p_correctGuesserScore = None,
       p_correctDrawerScore = None\<rparr>)
     = ex_room (ex_lobby_data\<lparr>settings := defaultSettings\<lparr>gameDuration := Fin 30\<rparr>\<rparr>)
         ex_sessions [] 1"
  using settings_update_only_by_moderator
    [of "ex_room ex_lobby_data ex_sessions [] 1" ex_lobby_data "''bob''"
        "\<lparr>p_gameDuration = Some (Fin 30), p_minPlayers = None, p_maxPlayers = None,
          p_aiEnabled = None, p_aiGuessCooldown = None, p_correctGuesserScore = None,
          p_correctDrawerScore = None\<rparr>"]
    settings_update_only_by_moderator
    [of "ex_room ex_lobby_data ex_sessions [] 1" ex_lobby_data "''ann''"
        "\<lparr>p_gameDuration = Some (Fin 30), p_minPlayers = None, p_maxPlayers = None,
          p_aiEnabled = None, p_aiGuessCooldown = None, p_correctGuesserScore = None,
          p_correctDrawerScore = None\<rparr>"]
  by (simp add: ex_room_def ex_lobby_data_def newRoomData_def mergeSettings_def
      merge_opt_def merge_opt2_def defaultSettings_def Let_def)

subsection \<open>Moderator failover\<close>




lemma ex_bob_left_reachable:
  "finalRoom (run K0 (constructor None True) (tr_sockets @ [(Close 2, 0, 0, 0)]))
     = Some ex_bob_left"
  by (simp add: finalRoom_def tr_sockets_def enabled_def step_def fetch_def postInitialize_def
      upgrade_def handleSession_def closeListener_def addUser_def constructor_def
      newRoomData_def ex_room_def ex_bob_left_def
      ex_lobby_data_def broadcast_def Let_def)

lemma ex_only_ann_reachable:
  "finalRoom (run K0 (constructor None True)
      (tr_sockets @ [(Close 2, 0, 0, 0), (Close 3, 0, 0, 0)])) = Some ex_only_ann"
  by (simp add: finalRoom_def tr_sockets_def enabled_def step_def fetch_def postInitialize_def
      upgrade_def handleSession_def closeListener_def addUser_def constructor_def
      newRoomData_def ex_room_def ex_only_ann_def
      ex_lobby_data_def broadcast_def Let_def)

subsection \<open>One phase at a time\<close>

lemma phaseOK_iff:
  "phaseOK room \<longleftrightarrow> (\<exists>rd. storage room = Some rd \<and> isActive rd \<noteq> isLobby rd)"
  by (auto simp add: phaseOK_def split: option.splits)

lemma phaseOK_Some [simp]:
  "phaseOK (room\<lparr>storage := Some rd\<rparr>) = (isActive rd \<noteq> isLobby rd)"
  by (simp add: phaseOK_def)

lemma addUser_flags [simp]:
  "isActive (addUser name rd) = isActive rd" "isLobby (addUser name rd) = isLobby rd"
  by (simp_all add: addUser_def Let_def)

lemma addAIPlayer_flags [simp]:
  "isActive (addAIPlayer K rd) = isActive rd" "isLobby (addAIPlayer K rd) = isLobby rd"
  by (simp_all add: addAIPlayer_def Let_def)

lemma handleRoundEnd_phase: "phaseOK (fst (handleRoundEnd room rd success))"
  by (simp add: handleRoundEnd_def phaseOK_def Let_def)

lemma startGameTimer_storage:
  "storage room = Some rd \<Longrightarrow>
   \<exists>t. storage (startGameTimer room) = Some (rd\<lparr>timerInterval := t\<rparr>)"
  by (auto simp add: startGameTimer_def intro: exI[of _ "timerInterval rd"])

lemma handleStartGame_phase:
  assumes "phaseOK room"
  shows "phaseOK (fst (handleStartGame K room name now r_word r_drawer))"
proof -
  from assms obtain r where r: "storage room = Some r"
    by (auto simp add: phaseOK_iff)
  show ?thesis
  proof (cases "moderator r \<noteq> name \<or>
      js_lt (num_of_nat (length (connectedNames r))) (minPlayers (settings r))")
    case True
    with r assms show ?thesis by (auto simp add: handleStartGame_def)
  next
    case False
    let ?rd2 = "addAIPlayer K
      (r\<lparr>isActive := True, isLobby := False, targetWord := pick (GAME_WORDS K) r_word,
         timeRemaining := gameDuration (settings r), guesses := [], hasWon := False,
         currentDrawer := pick (connectedNames r) r_drawer,
         endTime := Some (js_add (num_of_int now) (js_mul (gameDuration (settings r)) (Fin 1000))),
         drawingData := [], scores := Some (zeroScores (users r))\<rparr>)"
    have "storage (room\<lparr>storage := Some ?rd2\<rparr>) = Some ?rd2" by simp
    from startGameTimer_storage[OF this] obtain t where
      "storage (startGameTimer (room\<lparr>storage := Some ?rd2\<rparr>)) = Some (?rd2\<lparr>timerInterval := t\<rparr>)" ..
    with False r show ?thesis
      by (simp add: handleStartGame_def Let_def phaseOK_def)
  qed
qed

lemma updateGameTimer_phase:
  assumes "phaseOK room"
  shows "phaseOK (fst (updateGameTimer room))"
proof -
  from assms obtain r where r: "storage room = Some r" and f: "isActive r \<noteq> isLobby r"
    by (auto simp add: phaseOK_iff)
  with assms show ?thesis
    by (simp add: updateGameTimer_def Let_def handleRoundEnd_phase)
qed

lemma handleUpdateSettings_phase:
  assumes "phaseOK room"
  shows "phaseOK (fst (handleUpdateSettings room name p))"
proof -
  from assms obtain r where r: "storage room = Some r" and f: "isActive r \<noteq> isLobby r"
    by (auto simp add: phaseOK_iff)
  with assms show ?thesis
    by (simp add: handleUpdateSettings_def Let_def)
qed

lemma handleCorrectGuess_phase:
  "isActive rd \<noteq> isLobby rd \<Longrightarrow> phaseOK (fst (handleCorrectGuess K room rd name))"
  by (simp add: handleCorrectGuess_def Let_def handleRoundEnd_phase)

lemma handleGuess_phase:
  assumes "phaseOK room" and "handleGuess K room name g now = Inr out"
  shows "phaseOK (fst out)"
proof -
  from assms obtain r where r: "storage room = Some r" and f: "isActive r \<noteq> isLobby r"
    by (auto simp add: phaseOK_iff)
  have "phaseOK (fst (handleCorrectGuess K room (r\<lparr>guesses := gs\<rparr>) name))" for gs
    using f by (simp add: handleCorrectGuess_phase)
  with assms r f show ?thesis
    by (auto simp add: handleGuess_def Let_def split: option.splits if_splits)
qed

lemma processAIGuess_phase:
  "phaseOK room \<Longrightarrow> processAIGuess K room rd now r1 r2 = Inr out \<Longrightarrow> phaseOK (fst out)"
  by (auto simp add: processAIGuess_def Let_def dest: handleGuess_phase split: if_splits)

lemma handleDrawingUpdate_phase:
  assumes "phaseOK room" and "handleDrawingUpdate K room name d now r1 r2 = Inr out"
  shows "phaseOK (fst out)"
proof -
  from assms(1) obtain r where r: "storage room = Some r" and f: "isActive r \<noteq> isLobby r"
    by (auto simp add: phaseOK_iff)
  have ok1: "phaseOK (room\<lparr>storage := Some (r\<lparr>drawingData := d\<rparr>)\<rparr>)"
    using f by simp
  show ?thesis
    using assms r ok1
    by (auto simp add: handleDrawingUpdate_def Let_def
        dest!: processAIGuess_phase[OF ok1] split: if_splits sum.splits)
qed

lemma handleSession_phase:
  assumes "phaseOK room"
  shows "phaseOK (fst (handleSession room ws rk name))"
proof -
  from assms obtain r where r: "storage room = Some r" and f: "isActive r \<noteq> isLobby r"
    by (auto simp add: phaseOK_iff)
  then show ?thesis
    by (simp add: handleSession_def Let_def)
qed

lemma closeListener_phase:
  assumes "phaseOK room"
  shows "phaseOK (fst (closeListener room ws name))"
proof -
  from assms obtain r where r: "storage room = Some r" and f: "isActive r \<noteq> isLobby r"
    by (auto simp add: phaseOK_iff)
  then show ?thesis
    by (auto simp add: closeListener_def Let_def phaseOK_def split: list.splits)
qed

lemma fetch_phase:
  assumes "phaseOK room" and "fetch K room rq now r1 r2 = Inr out"
  shows "phaseOK (fst out)"
proof (cases rq)
  case (Upgrade ws rk name)
  with assms show ?thesis
    by (auto simp add: fetch_def upgrade_def Let_def handleSession_phase
        split: option.splits if_splits)
next
  case (PostInitialize rk name)
  with assms show ?thesis
    by (auto simp add: fetch_def postInitialize_def Let_def phaseOK_def newRoomData_def
        split: option.splits if_splits)
next
  case (PostJoin name)
  with assms show ?thesis
    by (auto simp add: fetch_def postJoin_def roomOf_def Let_def phaseOK_def
        split: option.splits if_splits)
next
  case GetSettings
  with assms show ?thesis
    by (auto simp add: fetch_def getSettings_def split: option.splits)
next
  case (PutSettings name p)
  with assms show ?thesis
    by (auto simp add: fetch_def putSettings_def roomOf_def Let_def phaseOK_def
        split: option.splits if_splits)
next
  case (PostStartGame name)
  with assms show ?thesis
    by (auto simp add: fetch_def postStartGame_def Let_def handleStartGame_phase
        split: option.splits if_splits)
next
  case (PostSubmitGuess name g)
  with assms show ?thesis
    by (auto simp add: fetch_def postSubmitGuess_def dest: handleGuess_phase
        split: option.splits if_splits sum.splits)
next
  case (PostUpdateDrawing name d)
  with assms show ?thesis
    by (auto simp add: fetch_def postUpdateDrawing_def dest: handleDrawingUpdate_phase
        split: option.splits if_splits sum.splits)
next
  case (GetGameState name)
  with assms show ?thesis
    by (auto simp add: fetch_def getGameState_def split: option.splits)
next
  case OtherRequest
  with assms show ?thesis
    by (auto simp add: fetch_def)
qed

lemma messageListener_phase:
  "phaseOK room \<Longrightarrow> messageListener K room ws name msg now r1 r2 = Inr out \<Longrightarrow>
   phaseOK (fst out)"
  by (cases msg)
     (auto simp add: messageListener_def handleUpdateSettings_phase handleStartGame_phase
       dest: handleGuess_phase handleDrawingUpdate_phase)

lemma step_phase:
  "phaseOK room \<Longrightarrow> step K room ev now r1 r2 = Inr out \<Longrightarrow> phaseOK (fst out)"
  by (cases ev)
     (auto simp add: step_def closeListener_phase updateGameTimer_phase
       dest: fetch_phase messageListener_phase split: sum.splits option.splits if_splits)

lemma constructor_phase: "phaseOK (constructor None timers)"
  by (simp add: constructor_def phaseOK_def newRoomData_def)

lemma reachable_phase: "reachable K room \<Longrightarrow> phaseOK room"
  by (induction rule: reachable.induct) (auto simp add: constructor_phase dest: step_phase)

text \<open>
  C8. In every reachable state of the object the stored room has exactly one of
  the two phase flags set: \<open>isActive\<close> and \<open>isLobby\<close> are never both true and
  never both false. Every event of the object (the HTTP routes, among them
  initialisation, round start, guess, drawing update and settings update, the
  socket messages, connect, disconnect, and the timer tick with the round end it
  can cause) leads from a room with exactly one flag set to a room with exactly
  one flag set.
\<close>

theorem exactly_one_phase:
  "(reachable K room \<longrightarrow> phaseOK room) \<and>
   (phaseOK room \<and> step K room ev now r1 r2 = Inr (room', effs) \<longrightarrow> phaseOK room')"
  by (auto dest: reachable_phase step_phase)

theorem exactly_one_phase_witness:
  "reachable K0 (ex_room ex_active_data [] [1] 2) \<and>
   phaseOK (ex_room ex_active_data [] [1] 2) \<and>
   step K0 (ex_room ex_active_data [] [1] 2) (Tick 1) 3000 0 0
     = Inr (ex_room (ex_active_data\<lparr>timeRemaining := Fin 59\<rparr>) [] [1] 2,
            [Broadcast (TimeUpdate (Fin 59)) []]) \<and>
   phaseOK (ex_room (ex_active_data\<lparr>timeRemaining := Fin 59\<rparr>) [] [1] 2)"
  using exactly_one_phase
    [of K0 "ex_room ex_active_data [] [1] 2" "Tick 1" 3000 0 0
        "ex_room (ex_active_data\<lparr>timeRemaining := Fin 59\<rparr>) [] [1] 2"
        "[Broadcast (TimeUpdate (Fin 59)) []]"]
    finalRoom_reachable [OF ex_active_reachable]
  by (simp add: step_def updateGameTimer_def ex_room_def ex_active_data_def ex_lobby_data_def
      newRoomData_def defaultSettings_def js_max_def js_sub_def broadcast_def Let_def)

lemma ex_guessed_reachable:
  "finalRoom (run K0 (constructor None True) tr_guessed) = Some (ex_room ex_guessed_data [] [1] 2)"
  by code_simp

subsection \<open>Starting a round\<close>



lemma addAIPlayer_fields [simp]:
  "targetWord (addAIPlayer K rd) = targetWord rd"
  "currentDrawer (addAIPlayer K rd) = currentDrawer rd"
  "timeRemaining (addAIPlayer K rd) = timeRemaining rd"
  "guesses (addAIPlayer K rd) = guesses rd"
  "hasWon (addAIPlayer K rd) = hasWon rd"
  "settings (addAIPlayer K rd) = settings rd"
  by (simp_all add: addAIPlayer_def Let_def)






subsection \<open>Scoring\<close>


lemma ex_halftime_reachable:
  "finalRoom (run K0 (constructor None True) tr_halftime)
     = Some (ex_room ex_halftime_data [] [1] 2)"
  by code_simp


lemma awardScores_guesses [simp]:
  "awardScores K (rd\<lparr>guesses := gs\<rparr>) name = awardScores K rd name"
  by (simp add: awardScores_def guesserAward_def drawerAward_def timeBasedMultiplier_def
      nonDrawerPlayers_def scoresOf_def Let_def split: option.splits)






subsection \<open>Round logs\<close>

lemma roundLog_append:
  "roundLog b (xs @ ys) = (case roundLog b xs of None \<Rightarrow> None | Some b' \<Rightarrow> roundLog b' ys)"
  by (induction b xs rule: roundLog.induct) auto

lemma logOK_noop [simp]: "logOK room (room, [])"
  by (simp add: logOK_def)

lemma activeFlag_Some [simp]: "activeFlag (room\<lparr>storage := Some rd\<rparr>) = isActive rd"
  by (simp add: activeFlag_def)

lemma activeFlag_sessions [simp]: "activeFlag (room\<lparr>sessions := ss\<rparr>) = activeFlag room"
  by (simp add: activeFlag_def)

lemma handleRoundEnd_log:
  "snd (handleRoundEnd room rd success) =
     [Broadcast (RoundEnd success (targetWord rd) (scores rd)
        (Some \<lparr>status_type = (if success then Success else Failure),
               message = roundEndMessage success (targetWord rd)\<rparr>)) (map fst (sessions room))]"
  "activeFlag (fst (handleRoundEnd room rd success)) = False"
  by (simp_all add: handleRoundEnd_def Let_def broadcast_def activeFlag_def)

lemma handleRoundEnd_logOK:
  "activeFlag room \<Longrightarrow> logOK room (handleRoundEnd room rd success)"
  by (simp add: logOK_def handleRoundEnd_log)

lemma updateGameTimer_logOK: "logOK room (updateGameTimer room)"
proof (cases "storage room")
  case None
  then show ?thesis by (simp add: updateGameTimer_def)
next
  case (Some r)
  show ?thesis
  proof (cases "isActive r")
    case False
    with Some show ?thesis by (simp add: updateGameTimer_def)
  next
    case True
    with Some have "activeFlag room" by (simp add: activeFlag_def)
    then have "logOK room (handleRoundEnd room rd False)" for rd
      by (rule handleRoundEnd_logOK)
    with Some True show ?thesis
      by (simp add: updateGameTimer_def Let_def)
         (simp add: logOK_def broadcast_def activeFlag_def)
  qed
qed

lemma handleUpdateSettings_logOK: "logOK room (handleUpdateSettings room name p)"
  by (auto simp add: handleUpdateSettings_def Let_def logOK_def broadcast_def activeFlag_def
      split: option.splits)

lemma youAreDrawing_log: "roundLog b (youAreDrawing room rd) = Some b"
  by (simp add: youAreDrawing_def split: option.splits)

lemma startGameTimer_active:
  "storage room = Some rd \<Longrightarrow> activeFlag (startGameTimer room) = isActive rd"
  by (simp add: startGameTimer_def activeFlag_def)

lemma handleStartGame_logOK: "logOK room (handleStartGame K room name now r_word r_drawer)"
  by (auto simp add: handleStartGame_def Let_def logOK_def broadcast_def youAreDrawing_log
      startGameTimer_active split: option.splits)

lemma handleCorrectGuess_logOK:
  assumes "activeFlag room" and "isActive rd"
  shows "logOK room (handleCorrectGuess K room rd name)"
proof -
  have "logOK room (handleRoundEnd room rd' True)" for rd'
    using assms(1) by (rule handleRoundEnd_logOK)
  then show ?thesis
    using assms
    by (simp add: handleCorrectGuess_def Let_def)
       (simp add: logOK_def broadcast_def)
qed

lemma handleGuess_logOK:
  assumes "handleGuess K room name g now = Inr out"
  shows "logOK room out"
proof (cases "storage room")
  case None
  with assms show ?thesis by (auto simp add: handleGuess_def)
next
  case (Some r)
  show ?thesis
  proof (cases "isActive r")
    case False
    with Some assms show ?thesis by (auto simp add: handleGuess_def)
  next
    case True
    with Some have act: "activeFlag room" by (simp add: activeFlag_def)
    have "logOK room (handleCorrectGuess K room (r\<lparr>guesses := gs\<rparr>) name)" for gs
      using act True by (simp add: handleCorrectGuess_logOK)
    with assms Some True act show ?thesis
      by (auto simp add: handleGuess_def Let_def split: option.splits if_splits)
         (simp add: logOK_def broadcast_def)
  qed
qed

lemma processAIGuess_logOK:
  "processAIGuess K room rd now r1 r2 = Inr out \<Longrightarrow> logOK room out"
  by (auto simp add: processAIGuess_def Let_def dest: handleGuess_logOK split: if_splits)

lemma logOK_then_broadcast:
  assumes "logOK room1 out" and "activeFlag room1 = activeFlag room"
  shows "logOK room (fst out, snd out @ [Broadcast (DrawingUpdate d) ws])"
  using assms by (simp add: logOK_def roundLog_append)

lemma handleDrawingUpdate_logOK:
  assumes "handleDrawingUpdate K room name d now r1 r2 = Inr out"
  shows "logOK room out"
proof (cases "storage room")
  case None
  with assms show ?thesis by (auto simp add: handleDrawingUpdate_def)
next
  case (Some r)
  let ?room1 = "room\<lparr>storage := Some (r\<lparr>drawingData := d\<rparr>)\<rparr>"
  have same: "activeFlag ?room1 = activeFlag room"
    using Some by (simp add: activeFlag_def)
  have ai: "logOK room (fst res, snd res @ [Broadcast (DrawingUpdate d) ws])"
    if "processAIGuess K ?room1 (r\<lparr>drawingData := d\<rparr>) now r1 r2 = Inr res" for res ws
    using processAIGuess_logOK[OF that] same by (rule logOK_then_broadcast)
  from assms Some show ?thesis
    by (auto simp add: handleDrawingUpdate_def Let_def broadcast_def dest!: ai
        split: if_splits sum.splits)
       (simp add: logOK_def activeFlag_def)
qed

lemma handleSession_logOK: "logOK room (handleSession room ws rk name)"
  by (auto simp add: handleSession_def Let_def logOK_def broadcast_def activeFlag_def
      addUser_def split: option.splits)

lemma closeListener_logOK: "logOK room (closeListener room ws name)"
  by (auto simp add: closeListener_def Let_def logOK_def broadcast_def activeFlag_def
      split: option.splits list.splits)

lemma roundLog_mono:
  "roundLog a es = Some c \<Longrightarrow> (a \<longrightarrow> a') \<Longrightarrow> \<exists>c'. roundLog a' es = Some c' \<and> (c \<longrightarrow> c')"
  by (induction a es arbitrary: a' rule: roundLog.induct) (auto split: if_splits)

lemma handleGuess_log:
  "handleGuess K room name g now = Inr (room', effs) \<Longrightarrow>
   roundLog (activeFlag room) effs = Some (activeFlag room')"
  using handleGuess_logOK[of K room name g now "(room', effs)"] by (simp add: logOK_def)

lemma handleDrawingUpdate_log:
  "handleDrawingUpdate K room name d now r1 r2 = Inr (room', effs) \<Longrightarrow>
   roundLog (activeFlag room) effs = Some (activeFlag room')"
  using handleDrawingUpdate_logOK[of K room name d now r1 r2 "(room', effs)"]
  by (simp add: logOK_def)

lemma fetch_log:
  assumes "fetch K room rq now r1 r2 = Inr (room', effs, resp)"
  shows "\<exists>b. roundLog (activeFlag room) effs = Some b \<and> (activeFlag room' \<longrightarrow> b)"
proof (cases rq)
  case (Upgrade ws rk name)
  with assms handleSession_logOK[of room ws] show ?thesis
    by (auto simp add: fetch_def upgrade_def Let_def logOK_def split: option.splits if_splits)
next
  case (PostInitialize rk name)
  with assms show ?thesis
    by (auto simp add: fetch_def postInitialize_def Let_def newRoomData_def
        split: option.splits if_splits)
next
  case (PostJoin name)
  with assms show ?thesis
    by (auto simp add: fetch_def postJoin_def roomOf_def Let_def activeFlag_def
        broadcast_def addUser_def split: option.splits if_splits)
next
  case GetSettings
  with assms show ?thesis
    by (auto simp add: fetch_def getSettings_def split: option.splits)
next
  case (PutSettings name p)
  with assms show ?thesis
    by (auto simp add: fetch_def putSettings_def roomOf_def Let_def activeFlag_def
        broadcast_def split: option.splits if_splits)
next
  case (PostStartGame name)
  with assms handleStartGame_logOK[of room K name now r1 r2] show ?thesis
    by (auto simp add: fetch_def postStartGame_def Let_def logOK_def
        split: option.splits if_splits)
next
  case (PostSubmitGuess name g)
  with assms show ?thesis
    by (auto simp add: fetch_def postSubmitGuess_def dest: handleGuess_log
        split: option.splits if_splits sum.splits)
next
  case (PostUpdateDrawing name d)
  with assms show ?thesis
    by (auto simp add: fetch_def postUpdateDrawing_def dest: handleDrawingUpdate_log
        split: option.splits if_splits sum.splits)
next
  case (GetGameState name)
  with assms show ?thesis
    by (auto simp add: fetch_def getGameState_def split: option.splits)
next
  case OtherRequest
  with assms show ?thesis
    by (auto simp add: fetch_def)
qed

lemma messageListener_log:
  assumes "messageListener K room ws name msg now r1 r2 = Inr (room', effs)"
  shows "roundLog (activeFlag room) effs = Some (activeFlag room')"
proof (cases msg)
  case (UpdateSettings p)
  with assms handleUpdateSettings_logOK[of room name p] show ?thesis
    by (simp add: messageListener_def logOK_def)
next
  case StartGame
  with assms handleStartGame_logOK[of room K name now r1 r2] show ?thesis
    by (simp add: messageListener_def logOK_def)
next
  case (SubmitGuess g)
  with assms show ?thesis
    by (simp add: messageListener_def handleGuess_log)
next
  case (UpdateDrawing d)
  with assms show ?thesis
    by (simp add: messageListener_def handleDrawingUpdate_log)
next
  case OtherMessage
  with assms show ?thesis
    by (auto simp add: messageListener_def)
next
  case (Unparseable err)
  with assms show ?thesis
    by (auto simp add: messageListener_def)
qed

lemma step_log:
  assumes "step K room ev now r1 r2 = Inr (room', effs)"
  shows "\<exists>b. roundLog (activeFlag room) effs = Some b \<and> (activeFlag room' \<longrightarrow> b)"
proof (cases ev)
  case (Fetch rq)
  with assms show ?thesis
    by (auto simp add: step_def dest: fetch_log split: sum.splits)
next
  case (Message ws msg)
  with assms show ?thesis
    by (auto simp add: step_def dest: messageListener_log split: option.splits)
next
  case (Close ws)
  have "roundLog (activeFlag room) effs = Some (activeFlag room')"
    if "closeListener room ws name = (room', effs)" for name
    using closeListener_logOK[of room ws name] that by (simp add: logOK_def)
  with assms Close show ?thesis
    by (auto simp add: step_def split: option.splits)
next
  case (Tick i)
  with assms updateGameTimer_logOK[of room] show ?thesis
    by (auto simp add: step_def logOK_def split: if_splits)
qed

lemma run_roundLog:
  "run K room evs = Some (final, sent) \<Longrightarrow> (activeFlag room \<longrightarrow> b0) \<Longrightarrow>
   \<exists>b. roundLog b0 sent = Some b \<and> (activeFlag final \<longrightarrow> b)"
proof (induction evs arbitrary: room sent b0)
  case Nil
  then show ?case by simp
next
  case (Cons e evs)
  obtain ev now r1 r2 where e: "e = (ev, now, r1, r2)"
    by (cases e) auto
  from Cons.prems(1) e obtain room1 effs res where
    st: "step K room ev now r1 r2 = Inr (room1, effs)" and rest: "run K room1 evs = Some res"
    and fin: "fst res = final" and snt: "sent = effs @ snd res"
    by (auto split: if_splits sum.splits option.splits)
  from step_log[OF st] obtain b1 where
    b1: "roundLog (activeFlag room) effs = Some b1" "activeFlag room1 \<longrightarrow> b1"
    by auto
  from roundLog_mono[OF b1(1) Cons.prems(2)] obtain b2 where
    b2: "roundLog b0 effs = Some b2" "b1 \<longrightarrow> b2"
    by auto
  from rest fin have "run K room1 evs = Some (final, snd res)" by auto
  moreover from b1(2) b2(2) have "activeFlag room1 \<longrightarrow> b2" by simp
  ultimately obtain b where "roundLog b2 (snd res) = Some b" "activeFlag final \<longrightarrow> b"
    using Cons.IH by blast
  with b2(1) show ?case
    by (simp add: snt roundLog_append)
qed

subsection \<open>Completion of a round\<close>

lemma ex_ai_reachable:
  "finalRoom (run K0 (constructor None True) tr_ai) = Some (ex_room ex_ai_data [] [1] 2)"
  by code_simp

lemma allNonDrawers_iff:
  "allNonDrawersGuessedCorrectly K rd = everyOtherPlayerGuessed K rd"
  by (auto simp add: allNonDrawersGuessedCorrectly_def everyOtherPlayerGuessed_def
      hasCorrectGuess_def nonDrawerPlayers_def Let_def list_all_iff list_ex_iff)

lemma everyOtherPlayerGuessed_scores [simp]:
  "everyOtherPlayerGuessed K (rd\<lparr>scores := sc\<rparr>) = everyOtherPlayerGuessed K rd"
  by (simp add: everyOtherPlayerGuessed_def hasCorrectGuess_def)

lemma handleCorrectGuess_complete:
  assumes "everyOtherPlayerGuessed K rd"
  shows "\<exists>room' effs rd'.
           handleCorrectGuess K room rd name = (room', effs) \<and> storage room' = Some rd' \<and>
           list_ex (isRoundEnd True) effs \<and> \<not> list_ex (isCorrectGuess name) effs \<and>
           \<not> isActive rd' \<and> isLobby rd'"
  using assms
  by (simp add: handleCorrectGuess_def allNonDrawers_iff handleRoundEnd_def Let_def
      broadcast_def isRoundEnd_def isCorrectGuess_def)

lemma handleCorrectGuess_incomplete:
  assumes "\<not> everyOtherPlayerGuessed K rd"
  shows "\<exists>room' effs rd'.
           handleCorrectGuess K room rd name = (room', effs) \<and> storage room' = Some rd' \<and>
           \<not> list_ex (isRoundEnd True) effs \<and> list_ex (isCorrectGuess name) effs \<and>
           isActive rd' = isActive rd"
  using assms
  by (simp add: handleCorrectGuess_def allNonDrawers_iff Let_def
      broadcast_def isRoundEnd_def isCorrectGuess_def)

text \<open>
  C2, as the claim states it, fails in a reachable round with the AI player in
  the room: \<open>bob\<close>
  guesses the word, the AI player is a user other than the drawer with no
  correct guess recorded, and yet the round ends with success.
\<close>

theorem round_ends_without_ai_guess_counterexample:
  "reachable K0 (ex_room ex_ai_data [] [1] 2) \<and>
   \<not> spec_everyOtherUserGuessed (withCorrectGuess ex_ai_data ''bob'' ''cat'' 2000) \<and>
   (case handleGuess K0 (ex_room ex_ai_data [] [1] 2) ''bob'' (Some ''cat'') 2000 of
      Inl e \<Rightarrow> False
    | Inr out \<Rightarrow> list_ex (isRoundEnd True) (snd out))"
proof -
  have "\<not> spec_everyOtherUserGuessed (withCorrectGuess ex_ai_data ''bob'' ''cat'' 2000) \<and>
   (case handleGuess K0 (ex_room ex_ai_data [] [1] 2) ''bob'' (Some ''cat'') 2000 of
      Inl e \<Rightarrow> False
    | Inr out \<Rightarrow> list_ex (isRoundEnd True) (snd out))"
    by code_simp
  with finalRoom_reachable [OF ex_ai_reachable] show ?thesis
    by (rule conjI)
qed

text \<open>
  C2, amended. During an active round, a correct guess triggers the round end
  with success exactly when, after recording it, every user other than the
  current drawer and the AI player has at least one correct guess recorded;
  then \<open>roundEnd\<close> is broadcast and the room is in the lobby. Otherwise
  \<open>correctGuess\<close> is broadcast, no \<open>roundEnd\<close>, and the round stays active.
  In every run of the object from its creation, each \<open>roundEnd\<close> broadcast
  closes a round opened by a \<open>gameStarted\<close> broadcast that no earlier
  \<open>roundEnd\<close> has closed: a round ends at most once.
\<close>

theorem correct_guess_completion:
  "(storage room = Some roomData \<and> isActive roomData \<and>
    Some name \<noteq> currentDrawer roomData \<and> targetWord roomData = Some target \<and>
    toLowerCase (trim text) = toLowerCase target \<longrightarrow>
      (\<exists>room' effs roomData'.
         handleGuess K room name (Some text) now = Inr (room', effs) \<and>
         storage room' = Some roomData' \<and>
         (if everyOtherPlayerGuessed K (withCorrectGuess roomData name text now)
          then list_ex (isRoundEnd True) effs \<and> \<not> list_ex (isCorrectGuess name) effs \<and>
               \<not> isActive roomData' \<and> isLobby roomData'
          else \<not> list_ex (isRoundEnd True) effs \<and> list_ex (isCorrectGuess name) effs \<and>
               isActive roomData')))
   \<and> (run K (constructor None timers) evs = Some (final, sent) \<longrightarrow>
        roundLog False sent \<noteq> None)"
proof (intro conjI impI)
  assume h: "storage room = Some roomData \<and> isActive roomData \<and>
    Some name \<noteq> currentDrawer roomData \<and> targetWord roomData = Some target \<and>
    toLowerCase (trim text) = toLowerCase target"
  let ?rd1 = "withCorrectGuess roomData name text now"
  from h have out: "handleGuess K room name (Some text) now
      = Inr (handleCorrectGuess K room ?rd1 name)"
    by (simp add: handleGuess_def withCorrectGuess_def Let_def)
  from h have act: "isActive ?rd1" by (simp add: withCorrectGuess_def)
  show "\<exists>room' effs roomData'.
         handleGuess K room name (Some text) now = Inr (room', effs) \<and>
         storage room' = Some roomData' \<and>
         (if everyOtherPlayerGuessed K ?rd1
          then list_ex (isRoundEnd True) effs \<and> \<not> list_ex (isCorrectGuess name) effs \<and>
               \<not> isActive roomData' \<and> isLobby roomData'
          else \<not> list_ex (isRoundEnd True) effs \<and> list_ex (isCorrectGuess name) effs \<and>
               isActive roomData')"
  proof (cases "everyOtherPlayerGuessed K ?rd1")
    case True
    from handleCorrectGuess_complete[OF True, of room name] out True show ?thesis
      by auto
  next
    case False
    from handleCorrectGuess_incomplete[OF False, of room name] out False act show ?thesis
      by auto
  qed
next
  assume "run K (constructor None timers) evs = Some (final, sent)"
  from run_roundLog[OF this, of False] show "roundLog False sent \<noteq> None"
    by (auto simp add: activeFlag_def constructor_def newRoomData_def)
qed

theorem correct_guess_completion_witness:
  "(\<exists>room' effs roomData'.
      handleGuess K0 (ex_room ex_active_data [] [1] 2) ''bob'' (Some ''cat'') 2000
        = Inr (room', effs) \<and>
      storage room' = Some roomData' \<and>
      \<not> list_ex (isRoundEnd True) effs \<and> list_ex (isCorrectGuess ''bob'') effs \<and>
      isActive roomData')
   \<and> (\<exists>room' effs roomData'.
      handleGuess K0 (ex_room ex_guessed_data [] [1] 2) ''cy'' (Some ''cat'') 3000
        = Inr (room', effs) \<and>
      storage room' = Some roomData' \<and>
      list_ex (isRoundEnd True) effs \<and> \<not> list_ex (isCorrectGuess ''cy'') effs \<and>
      \<not> isActive roomData' \<and> isLobby roomData')
   \<and> (\<exists>final sent.
      run K0 (constructor None True)
        (tr_guessed @ [(Fetch (PostSubmitGuess ''cy'' (Some ''cat'')), 3000, 0, 0)])
        = Some (final, sent) \<and>
      roundLog False sent \<noteq> None)"
proof -
  have matches: "toLowerCase (trim ''cat'') = toLowerCase ''cat''"
    by code_simp
  have first: "\<not> everyOtherPlayerGuessed K0 (withCorrectGuess ex_active_data ''bob'' ''cat'' 2000)"
    by code_simp
  have second: "everyOtherPlayerGuessed K0 (withCorrectGuess ex_guessed_data ''cy'' ''cat'' 3000)"
    by code_simp
  have facts:
    "isActive ex_active_data" "currentDrawer ex_active_data = Some ''ann''"
    "targetWord ex_active_data = Some ''cat''"
    "isActive ex_guessed_data" "currentDrawer ex_guessed_data = Some ''ann''"
    "targetWord ex_guessed_data = Some ''cat''"
    by (simp_all add: ex_guessed_data_def ex_active_data_def)
  have "run K0 (constructor None True)
        (tr_guessed @ [(Fetch (PostSubmitGuess ''cy'' (Some ''cat'')), 3000, 0, 0)]) \<noteq> None"
    by code_simp
  then obtain final sent where runs:
    "run K0 (constructor None True)
        (tr_guessed @ [(Fetch (PostSubmitGuess ''cy'' (Some ''cat'')), 3000, 0, 0)])
      = Some (final, sent)"
    by auto
  show ?thesis
    using correct_guess_completion
      [of "ex_room ex_active_data [] [1] 2" ex_active_data "''bob''" "''cat''" "''cat''"
          K0 2000 True "[]" "constructor None True" "[]"]
      correct_guess_completion
      [of "ex_room ex_guessed_data [] [1] 2" ex_guessed_data "''cy''" "''cat''" "''cat''"
          K0 3000 True
          "tr_guessed @ [(Fetch (PostSubmitGuess ''cy'' (Some ''cat'')), 3000, 0, 0)]"
          final sent]
      matches first second facts runs
    by (simp add: ex_room_def)
qed

subsection \<open>Repeated correct guesses\<close>

lemma ex_ai_guessed_reachable:
  "finalRoom (run K0 (constructor None True) tr_ai_guessed)
     = Some (ex_room ex_ai_guessed_data [] [1] 2)"
  by code_simp

text \<open>
  C10. There is a reachable active round in which a player who is not the AI
  player and already has a correct guess recorded submits the target word again,
  and both awards are applied again: the guesser's score grows by the guesser's
  award once more and the drawer's score grows too (here \<open>bob\<close> goes from \<open>10\<close>
  to \<open>20\<close> and the drawer \<open>ann\<close> from \<open>5/2\<close> to \<open>5\<close>). The only check
  for an earlier correct guess is in the AI path: \<open>processAIGuess\<close> does nothing
  once the AI player has a correct guess recorded.
\<close>

theorem repeated_correct_guess_scores_again:
  "(\<exists>room roomData name drawer text now before after before_d after_d.
      reachable K0 room \<and> storage room = Some roomData \<and> isActive roomData \<and>
      name \<noteq> AI_PLAYER_ID K0 \<and> currentDrawer roomData = Some drawer \<and>
      hasCorrectGuess roomData name \<and>
      map_of (scoresOf roomData) name = Some (Fin before) \<and>
      resultScore (handleGuess K0 room name (Some text) now) name = Some (Fin after) \<and>
      Fin after = js_add (Fin before) (guesserAward roomData) \<and> before < after \<and>
      map_of (scoresOf roomData) drawer = Some (Fin before_d) \<and>
      resultScore (handleGuess K0 room name (Some text) now) drawer = Some (Fin after_d) \<and>
      Fin after_d = js_add (Fin before_d) (drawerAward K0 roomData) \<and> before_d < after_d)
   \<and> (hasCorrectGuess aiRoomData (AI_PLAYER_ID K) \<longrightarrow>
        processAIGuess K aiRoom aiRoomData aiNow r1 r2 = Inr (aiRoom, []))"
proof (intro conjI impI)
  have reach: "reachable K0 (ex_room ex_guessed_data [] [1] 2)"
    by (rule finalRoom_reachable[OF ex_guessed_reachable])
  have facts:
    "storage (ex_room ex_guessed_data [] [1] 2) = Some ex_guessed_data"
    "isActive ex_guessed_data" "''bob'' \<noteq> AI_PLAYER_ID K0"
    "currentDrawer ex_guessed_data = Some ''ann''"
    "hasCorrectGuess ex_guessed_data ''bob''"
    "map_of (scoresOf ex_guessed_data) ''bob'' = Some (Fin 10)"
    "resultScore (handleGuess K0 (ex_room ex_guessed_data [] [1] 2) ''bob'' (Some ''cat'') 4000)
       ''bob'' = Some (Fin 20)"
    "Fin 20 = js_add (Fin 10) (guesserAward ex_guessed_data)"
    "map_of (scoresOf ex_guessed_data) ''ann'' = Some (Fin (5 / 2))"
    "resultScore (handleGuess K0 (ex_room ex_guessed_data [] [1] 2) ''bob'' (Some ''cat'') 4000)
       ''ann'' = Some (Fin 5)"
    "Fin 5 = js_add (Fin (5 / 2)) (drawerAward K0 ex_guessed_data)"
    by code_simp+
  show "\<exists>room roomData name drawer text now before after before_d after_d.
      reachable K0 room \<and> storage room = Some roomData \<and> isActive roomData \<and>
      name \<noteq> AI_PLAYER_ID K0 \<and> currentDrawer roomData = Some drawer \<and>
      hasCorrectGuess roomData name \<and>
      map_of (scoresOf roomData) name = Some (Fin before) \<and>
      resultScore (handleGuess K0 room name (Some text) now) name = Some (Fin after) \<and>
      Fin after = js_add (Fin before) (guesserAward roomData) \<and> before < after \<and>
      map_of (scoresOf roomData) drawer = Some (Fin before_d) \<and>
      resultScore (handleGuess K0 room name (Some text) now) drawer = Some (Fin after_d) \<and>
      Fin after_d = js_add (Fin before_d) (drawerAward K0 roomData) \<and> before_d < after_d"
    apply (rule exI[of _ "ex_room ex_guessed_data [] [1] 2"])
    apply (rule exI[of _ ex_guessed_data])
    apply (rule exI[of _ "''bob''"])
    apply (rule exI[of _ "''ann''"])
    apply (rule exI[of _ "''cat''"])
    apply (rule exI[of _ 4000])
    apply (rule exI[of _ 10])
    apply (rule exI[of _ 20])
    apply (rule exI[of _ "5 / 2"])
    apply (rule exI[of _ 5])
    using reach facts by simp
next
  assume "hasCorrectGuess aiRoomData (AI_PLAYER_ID K)"
  then show "processAIGuess K aiRoom aiRoomData aiNow r1 r2 = Inr (aiRoom, [])"
    by (simp add: processAIGuess_def hasCorrectGuess_def)
qed

theorem repeated_correct_guess_scores_again_witness:
  "hasCorrectGuess ex_ai_guessed_data (AI_PLAYER_ID K0) \<and>
   processAIGuess K0 (ex_room ex_ai_guessed_data [] [1] 2) ex_ai_guessed_data 9000 (19 / 20) 0
     = Inr (ex_room ex_ai_guessed_data [] [1] 2, [])"
proof -
  have "hasCorrectGuess ex_ai_guessed_data (AI_PLAYER_ID K0)"
    by code_simp
  with repeated_correct_guess_scores_again
    [of ex_ai_guessed_data K0 "ex_room ex_ai_guessed_data [] [1] 2" 9000 "19 / 20" 0]
  show ?thesis by simp
qed

subsection \<open>A target word is always stored\<close>



lemma wordOK_Some [simp]: "wordOK (room\<lparr>storage := Some rd\<rparr>) = (targetWord rd \<noteq> None)"
  by (simp add: wordOK_def)

lemma addUser_word [simp]: "targetWord (addUser name rd) = targetWord rd"
  by (simp add: addUser_def Let_def)
















subsection \<open>Guesses\<close>



end
